theory Spec2Isabelle
  imports Main
begin

section \<open>Data model\<close>

text \<open>
  The scheduling code of the booking platform: \<^verbatim>\<open>utils/availabilityChecker.js\<close>
  (\<^verbatim>\<open>calculateAvailability\<close>, \<^verbatim>\<open>findAvailableSlots\<close>), the booking controller
  (\<^verbatim>\<open>createBooking\<close>, \<^verbatim>\<open>updateBookingStatus\<close>, \<^verbatim>\<open>cancelBooking\<close>), the admin
  controller's \<^verbatim>\<open>updateBookingStatus\<close> and the Mongoose schemas they read.

  Representation choices:
  \<^item> a \<^verbatim>\<open>Date\<close> or \<^verbatim>\<open>moment\<close> is an \<open>instant\<close>: milliseconds since the epoch, read as
    naive local time (no zone offset, no daylight saving);
  \<^item> a time string is the minute of the day it denotes: from 0 to 1439 for a string
    \<^verbatim>\<open>HH:mm\<close>, and 1440 for \<^verbatim>\<open>24:00\<close>, which \<^verbatim>\<open>moment\<close> reads as the following
    midnight; a string that \<^verbatim>\<open>moment\<close> does not read as a time is a number outside
    that range;
  \<^item> a \<^verbatim>\<open>moment\<close> that the slot search builds by parsing or adding is a \<open>moment\<close>:
    its milliseconds since the epoch, or \<open>None\<close> when it is invalid;
  \<^item> an \<^verbatim>\<open>ObjectId\<close> is a natural number;
  \<^item> the Booking collection is the list of its documents in natural order, together with
    a flag telling whether the database answers (a query against an unreachable database
    rejects, which the callers see as an exception);
  \<^item> fields of a booking that no scheduling code reads or writes (pricing, payment,
    communication, milestones, deliverables, review) are left out.
\<close>

type_synonym object_id = nat
type_synonym instant = int
type_synonym time_of_day = int
type_synonym moment = "int option"

datatype status = Pending | Confirmed | In_progress | Completed | Cancelled | Disputed

datatype providerType = Photographer | Videographer

datatype weekday = Sunday | Monday | Tuesday | Wednesday | Thursday | Friday | Saturday

record team_entry =
  tm_member :: object_id
  tm_role :: string
  tm_confirmed :: bool

record equipment_entry =
  eq_item :: object_id
  eq_quantity :: nat
  eq_reserved :: bool

record teamAssignment =
  ta_mainProvider :: "object_id option"
  ta_teamMembers :: "team_entry list"
  ta_equipment :: "equipment_entry list"

record eventDetails =
  ev_date :: instant
  ev_startTime :: time_of_day
  ev_endTime :: time_of_day

record cancellation =
  cancelledBy :: object_id
  cancel_reason :: string

record booking =
  b_id :: object_id
  b_client :: object_id
  b_provider :: object_id
  b_providerType :: providerType
  b_eventDetails :: eventDetails
  b_teamAssignment :: teamAssignment
  b_status :: status
  b_cancellation :: "cancellation option"

record working_day =
  wd_available :: bool
  wd_start :: time_of_day
  wd_end :: time_of_day

record availability =
  workingHours :: "weekday \<Rightarrow> working_day option"
  blackoutDates :: "instant list"

text \<open>
  A provider as \<^verbatim>\<open>calculateAvailability\<close> receives it. \<open>p_availability = None\<close> is the
  case where \<^verbatim>\<open>provider?.availability\<close> is undefined.
\<close>

record provider =
  p_id :: object_id
  p_availability :: "availability option"
  p_teamMembers :: "object_id list"
  p_equipment :: "object_id list"

record db =
  online :: bool
  bookings :: "booking list"

datatype error = RepositoryUnavailable | TypeError

section \<open>Temporal primitives\<close>

definition ms_per_day :: int where
  "ms_per_day = 86400000"

definition startOf_day :: "instant \<Rightarrow> instant" where
  "startOf_day t = t - t mod ms_per_day"

definition endOf_day :: "instant \<Rightarrow> instant" where
  "endOf_day t = startOf_day t + (ms_per_day - 1)"

definition isSame_day :: "instant \<Rightarrow> instant \<Rightarrow> bool" where
  "isSame_day a b = (startOf_day a = startOf_day b)"

fun weekday_of_index :: "int \<Rightarrow> weekday" where
  "weekday_of_index i =
     (if i = 0 then Sunday else if i = 1 then Monday else if i = 2 then Tuesday
      else if i = 3 then Wednesday else if i = 4 then Thursday
      else if i = 5 then Friday else Saturday)"

text \<open>\<^verbatim>\<open>date.format('dddd').toLowerCase()\<close>: day 0 of the epoch was a Thursday.\<close>

definition dayOfWeek :: "instant \<Rightarrow> weekday" where
  "dayOfWeek t = weekday_of_index ((t div ms_per_day + 4) mod 7)"

text \<open>
  The conflict test written inline in \<^verbatim>\<open>findAvailableSlots\<close>:
  \<^verbatim>\<open>currentSlot.isBefore(bookedEnd) && slotEnd.isAfter(bookedStart)\<close>.
\<close>

definition intervalsOverlap :: "int \<Rightarrow> int \<Rightarrow> int \<Rightarrow> int \<Rightarrow> bool" where
  "intervalsOverlap startA endA startB endB = (startA < endB \<and> endA > startB)"

text \<open>
  A JavaScript \<^verbatim>\<open>Date\<close> holds at most 8,640,000,000,000,000 milliseconds on either
  side of the epoch; a moment whose date falls outside is invalid.
\<close>

definition max_time :: int where
  "max_time = 8640000000000000"

definition mk_moment :: "int \<Rightarrow> moment" where
  "mk_moment t = (if - max_time \<le> t \<and> t \<le> max_time then Some t else None)"

text \<open>\<^verbatim>\<open>m.clone().add(n, 'hours')\<close>; an invalid moment stays invalid.\<close>

definition add_hours :: "moment \<Rightarrow> int \<Rightarrow> moment" where
  "add_hours m n = (case m of None \<Rightarrow> None | Some t \<Rightarrow> mk_moment (t + n * 3600000))"

text \<open>\<^verbatim>\<open>a.isSameOrBefore(b)\<close>: false as soon as one of the two is invalid.\<close>

definition isSameOrBefore :: "moment \<Rightarrow> moment \<Rightarrow> bool" where
  "isSameOrBefore a b =
     (case a of None \<Rightarrow> False | Some x \<Rightarrow> (case b of None \<Rightarrow> False | Some y \<Rightarrow> x \<le> y))"

text \<open>
  The conflict test on moments: \<^verbatim>\<open>isBefore\<close> and \<^verbatim>\<open>isAfter\<close> are false as soon as
  one of their two moments is invalid, and compare the milliseconds otherwise.
\<close>

definition slot_conflicts :: "moment \<Rightarrow> moment \<Rightarrow> moment \<Rightarrow> moment \<Rightarrow> bool" where
  "slot_conflicts currentSlot slotEnd bookedStart bookedEnd =
     (case currentSlot of None \<Rightarrow> False | Some c \<Rightarrow>
      (case slotEnd of None \<Rightarrow> False | Some e \<Rightarrow>
       (case bookedStart of None \<Rightarrow> False | Some bs \<Rightarrow>
        (case bookedEnd of None \<Rightarrow> False | Some be \<Rightarrow> intervalsOverlap c e bs be))))"

text \<open>
  The \<^verbatim>\<open>date\<close> argument of the slot search, a string of the query: either it names a
  calendar day and nothing else (the day's number, counted from the epoch), or it carries
  a time of day as well (the instant it denotes). \<^verbatim>\<open>moment(date)\<close> is the day's midnight
  in the first case and the instant in the second. \<^verbatim>\<open>moment(`${date} ${time}`)\<close> is
  valid only for a date without a time part and a time string that denotes a time, and
  then is that time on that day; a date that already carries a time gives a string that
  does not parse.
\<close>

datatype date_arg = Date_only int | Date_time instant

definition moment_of :: "date_arg \<Rightarrow> instant" where
  "moment_of date = (case date of Date_only d \<Rightarrow> d * ms_per_day | Date_time t \<Rightarrow> t)"

definition moment_at :: "date_arg \<Rightarrow> time_of_day \<Rightarrow> moment" where
  "moment_at date t =
     (case date of
        Date_only d \<Rightarrow>
          if 0 \<le> t \<and> t \<le> 1440 then mk_moment (d * ms_per_day + t * 60000) else None
      | Date_time i \<Rightarrow> None)"

text \<open>
  \<^verbatim>\<open>format('HH:mm')\<close>: the minute of the day of a valid moment; of an invalid moment
  the string \<^verbatim>\<open>Invalid date\<close>, which denotes no time of day.
\<close>

definition format_HHmm :: "moment \<Rightarrow> time_of_day" where
  "format_HHmm m = (case m of None \<Rightarrow> - 1 | Some t \<Rightarrow> (t mod ms_per_day) div 60000)"

section \<open>The Booking collection\<close>

definition Booking_find :: "(booking \<Rightarrow> bool) \<Rightarrow> db \<Rightarrow> (error + booking list) \<times> db" where
  "Booking_find q s =
     (if online s then (Inr (filter q (bookings s)), s) else (Inl RepositoryUnavailable, s))"

definition Booking_findOne :: "(booking \<Rightarrow> bool) \<Rightarrow> db \<Rightarrow> (error + booking option) \<times> db" where
  "Booking_findOne q s =
     (if online s then (Inr (find q (bookings s)), s) else (Inl RepositoryUnavailable, s))"

fun update_first :: "('a \<Rightarrow> bool) \<Rightarrow> ('a \<Rightarrow> 'a) \<Rightarrow> 'a list \<Rightarrow> 'a list" where
  "update_first q f [] = []"
| "update_first q f (x # xs) = (if q x then f x # xs else x # update_first q f xs)"

text \<open>
  \<^verbatim>\<open>findByIdAndUpdate(id, update, {new: true})\<close>: the first document with that id is
  rewritten and returned as rewritten.
\<close>

definition Booking_findByIdAndUpdate ::
  "object_id \<Rightarrow> (booking \<Rightarrow> booking) \<Rightarrow> db \<Rightarrow> (error + booking option) \<times> db" where
  "Booking_findByIdAndUpdate i f s =
     (if online s
      then (Inr (map_option f (find (\<lambda>b. b_id b = i) (bookings s))),
            s\<lparr>bookings := update_first (\<lambda>b. b_id b = i) f (bookings s)\<rparr>)
      else (Inl RepositoryUnavailable, s))"

text \<open>
  \<^verbatim>\<open>doc.save()\<close>: a document whose id is stored already is replaced, a new one is
  appended.
\<close>

definition Booking_save :: "booking \<Rightarrow> db \<Rightarrow> (error + unit) \<times> db" where
  "Booking_save b s =
     (if online s
      then (Inr (),
            if list_ex (\<lambda>c. b_id c = b_id b) (bookings s)
            then s\<lparr>bookings := update_first (\<lambda>c. b_id c = b_id b) (\<lambda>_. b) (bookings s)\<rparr>
            else s\<lparr>bookings := bookings s @ [b]\<rparr>)
      else (Inl RepositoryUnavailable, s))"

section \<open>Availability\<close>

record booked_slot =
  bs_start :: time_of_day
  bs_end :: time_of_day
  bs_bookingId :: object_id

record capacity =
  cap_total :: int
  cap_available :: int
  cap_booked :: int

record availability_result =
  r_available :: bool
  r_reason :: "string option"
  r_workingHours :: "working_day option"
  r_bookedSlots :: "booked_slot list"
  r_capacity :: "capacity option"

text \<open>The filter of the \<^verbatim>\<open>Booking.find\<close> at the head of \<^verbatim>\<open>calculateAvailability\<close>.\<close>

definition day_query :: "object_id \<Rightarrow> instant \<Rightarrow> instant \<Rightarrow> booking \<Rightarrow> bool" where
  "day_query pid lo hi b =
     (b_provider b = pid \<and> lo \<le> ev_date (b_eventDetails b) \<and> ev_date (b_eventDetails b) \<le> hi
      \<and> (b_status b = Confirmed \<or> b_status b = In_progress))"

text \<open>\<^verbatim>\<open>booking.teamAssignment.teamMembers?.length || 1\<close>, summed by \<^verbatim>\<open>reduce\<close>.\<close>

definition members_or_one :: "booking \<Rightarrow> int" where
  "members_or_one b =
     (if length (ta_teamMembers (b_teamAssignment b)) = 0 then 1
      else int (length (ta_teamMembers (b_teamAssignment b))))"

definition bookedTeamMembers :: "booking list \<Rightarrow> int" where
  "bookedTeamMembers bs = foldl (\<lambda>total b. total + members_or_one b) 0 bs"

definition to_bookedSlot :: "booking \<Rightarrow> booked_slot" where
  "to_bookedSlot b =
     \<lparr>bs_start = ev_startTime (b_eventDetails b), bs_end = ev_endTime (b_eventDetails b),
      bs_bookingId = b_id b\<rparr>"

text \<open>
  The statements after the query. \<^verbatim>\<open>provider?.availability?.workingHours[dayOfWeek]\<close>
  is undefined when the availability is undefined or has no entry for the weekday; past
  that test the availability is defined, so \<^verbatim>\<open>provider.availability.blackoutDates\<close>
  reads it.
\<close>

definition not_available_on_day :: availability_result where
  "not_available_on_day =
     \<lparr>r_available = False, r_reason = Some ''Not available on this day'',
      r_workingHours = None, r_bookedSlots = [], r_capacity = None\<rparr>"

definition decide_availability :: "provider \<Rightarrow> instant \<Rightarrow> booking list \<Rightarrow> availability_result" where
  "decide_availability p date existingBookings =
     (case p_availability p of
        None \<Rightarrow> not_available_on_day
      | Some a \<Rightarrow>
          (case workingHours a (dayOfWeek date) of
             None \<Rightarrow> not_available_on_day
           | Some wh \<Rightarrow>
               if \<not> wd_available wh then not_available_on_day
               else if list_ex (\<lambda>blackoutDate. isSame_day blackoutDate date) (blackoutDates a) then
                 \<lparr>r_available = False, r_reason = Some ''Blackout date'',
                  r_workingHours = Some wh, r_bookedSlots = [], r_capacity = None\<rparr>
               else
                 (let bookedSlots = map to_bookedSlot existingBookings;
                      totalTeamMembers = int (length (p_teamMembers p));
                      booked = bookedTeamMembers existingBookings;
                      availableTeamMembers = max 0 (totalTeamMembers - booked)
                  in \<lparr>r_available = (availableTeamMembers > 0),
                      r_reason = (if availableTeamMembers > 0 then None
                                  else Some ''No team members available''),
                      r_workingHours = Some wh, r_bookedSlots = bookedSlots,
                      r_capacity = Some \<lparr>cap_total = totalTeamMembers,
                                         cap_available = availableTeamMembers,
                                         cap_booked = booked\<rparr>\<rparr>)))"

text \<open>The \<^verbatim>\<open>try\<close> block of \<^verbatim>\<open>calculateAvailability\<close>: \<open>Inl\<close> is an exception raised in it.\<close>

definition calculateAvailability_try ::
  "provider \<Rightarrow> instant \<Rightarrow> db \<Rightarrow> (error + availability_result) \<times> db" where
  "calculateAvailability_try p requestedDate s =
     (let date = startOf_day requestedDate;
          endOfDay = endOf_day requestedDate
      in case Booking_find (day_query (p_id p) date endOfDay) s of
           (Inl e, s') \<Rightarrow> (Inl e, s')
         | (Inr existingBookings, s') \<Rightarrow> (Inr (decide_availability p date existingBookings), s'))"

text \<open>The whole function: the \<^verbatim>\<open>catch\<close> turns every exception into a result.\<close>

definition calculateAvailability :: "provider \<Rightarrow> instant \<Rightarrow> db \<Rightarrow> availability_result \<times> db" where
  "calculateAvailability p requestedDate s =
     (case calculateAvailability_try p requestedDate s of
        (Inl e, s') \<Rightarrow>
          (\<lparr>r_available = False, r_reason = Some ''Error calculating availability'',
            r_workingHours = None, r_bookedSlots = [], r_capacity = None\<rparr>, s')
      | (Inr r, s') \<Rightarrow> (r, s'))"

section \<open>Slot generation\<close>

record slot =
  sl_start :: time_of_day
  sl_end :: time_of_day
  sl_available :: bool

text \<open>
  \<^verbatim>\<open>parseInt(duration) || 4\<close>; the argument is the result of \<^verbatim>\<open>parseInt\<close>, \<open>None\<close>
  for NaN.
\<close>

definition slotDuration_of :: "int option \<Rightarrow> int" where
  "slotDuration_of d = (case d of None \<Rightarrow> 4 | Some n \<Rightarrow> if n = 0 then 4 else n)"

text \<open>
  The test of one candidate against the booked slots; the booked times are parsed with
  the date at every candidate.
\<close>

definition hasConflict :: "date_arg \<Rightarrow> moment \<Rightarrow> moment \<Rightarrow> booked_slot list \<Rightarrow> bool" where
  "hasConflict date currentSlot slotEnd bookedSlots =
     list_ex (\<lambda>bookedSlot.
                slot_conflicts currentSlot slotEnd
                  (moment_at date (bs_start bookedSlot)) (moment_at date (bs_end bookedSlot)))
       bookedSlots"

text \<open>The \<^verbatim>\<open>while\<close> loop.\<close>

function slot_loop ::
  "date_arg \<Rightarrow> moment \<Rightarrow> moment \<Rightarrow> int \<Rightarrow> booked_slot list \<Rightarrow> slot list" where
  "slot_loop date currentSlot workEnd slotDuration bookedSlots =
     (if isSameOrBefore (add_hours currentSlot slotDuration) workEnd
      then (let slotEnd = add_hours currentSlot slotDuration
            in (if \<not> hasConflict date currentSlot slotEnd bookedSlots
                then [\<lparr>sl_start = format_HHmm currentSlot, sl_end = format_HHmm slotEnd,
                       sl_available = True\<rparr>]
                else [])
               @ slot_loop date (add_hours currentSlot 1) workEnd slotDuration bookedSlots)
      else [])"
  by pat_completeness auto
termination
  by (relation "measure (\<lambda>(date, c, w, d, b).
        case c of None \<Rightarrow> 0
        | Some x \<Rightarrow> (case w of None \<Rightarrow> 0 | Some y \<Rightarrow> nat (y - d * 3600000 - x + 1)))")
     (auto simp: isSameOrBefore_def add_hours_def mk_moment_def split: option.splits if_splits)

declare slot_loop.simps [simp del]

text \<open>
  \<^verbatim>\<open>findAvailableSlots\<close>: the availability check reads \<^verbatim>\<open>moment(date)\<close>, the loop
  starts at \<^verbatim>\<open>moment(`${date} ${workingHours.start}`)\<close>.
\<close>

definition findAvailableSlots :: "provider \<Rightarrow> date_arg \<Rightarrow> int option \<Rightarrow> db \<Rightarrow> slot list \<times> db" where
  "findAvailableSlots p date duration s =
     (case calculateAvailability p (moment_of date) s of
        (availability, s') \<Rightarrow>
          if \<not> r_available availability then ([], s')
          else
            (case r_workingHours availability of
               None \<Rightarrow> ([], s')
             | Some wh \<Rightarrow>
                 (slot_loop date (moment_at date (wd_start wh)) (moment_at date (wd_end wh))
                    (slotDuration_of duration) (r_bookedSlots availability), s')))"

section \<open>Booking controller\<close>

datatype response =
  Created booking
| Ok_200 "booking option"
| BadRequest string
| Forbidden
| NotFound
| ServerError

text \<open>
  \<^verbatim>\<open>new Booking({...})\<close> in \<^verbatim>\<open>createBooking\<close>: no status is passed, so the schema's
  default applies; the team assignment starts with the provider alone. The id is the
  fresh \<^verbatim>\<open>ObjectId\<close> Mongoose generates.
\<close>

definition new_Booking ::
  "object_id \<Rightarrow> object_id \<Rightarrow> object_id \<Rightarrow> providerType \<Rightarrow> eventDetails \<Rightarrow> booking" where
  "new_Booking fresh user providerId ptype ev =
     \<lparr>b_id = fresh, b_client = user, b_provider = providerId, b_providerType = ptype,
      b_eventDetails = ev,
      b_teamAssignment = \<lparr>ta_mainProvider = Some providerId, ta_teamMembers = [], ta_equipment = []\<rparr>,
      b_status = Pending, b_cancellation = None\<rparr>"

text \<open>
  \<^verbatim>\<open>createBooking\<close> binds \<^verbatim>\<open>provider\<close> to what \<^verbatim>\<open>ProviderModel.find(...)\<close> resolves
  to: the array of the matching documents. Read as a provider, an array has no \<^verbatim>\<open>_id\<close>,
  no \<^verbatim>\<open>availability\<close> and no \<^verbatim>\<open>teamMembers\<close>; the availability check then returns at
  the working-hours test and never reads what its query found, so the id the query is
  given here is immaterial.
\<close>

definition array_as_provider :: "provider list \<Rightarrow> provider" where
  "array_as_provider docs =
     \<lparr>p_id = 0, p_availability = None, p_teamMembers = [], p_equipment = []\<rparr>"

text \<open>
  \<^verbatim>\<open>createBooking\<close>. \<open>docs\<close> is the array the lookup resolves to and \<open>user\<close> is
  \<^verbatim>\<open>req.user._id\<close>. The lookup rejects when the database does not answer; an array is
  never falsy, so the 404 answer is not taken.
\<close>

definition createBooking ::
  "object_id \<Rightarrow> provider list \<Rightarrow> object_id \<Rightarrow> providerType \<Rightarrow> eventDetails \<Rightarrow> object_id
   \<Rightarrow> db \<Rightarrow> response \<times> db" where
  "createBooking user docs providerId ptype ev fresh s =
     (if \<not> online s then (ServerError, s)
      else
        (case calculateAvailability (array_as_provider docs) (ev_date ev) s of
           (availability, s1) \<Rightarrow>
             if \<not> r_available availability
             then (BadRequest ''Provider not available on selected date'', s1)
             else
               (let booking = new_Booking fresh user providerId ptype ev
                in case Booking_save booking s1 of
                     (Inl e, s2) \<Rightarrow> (ServerError, s2)
                   | (Inr u, s2) \<Rightarrow> (Created booking, s2))))"

text \<open>
  The body of a status update: the requested status (one of the schema's values) and,
  when present, the keys of \<^verbatim>\<open>teamAssignment\<close> the request carries.
\<close>

record assignment_update =
  up_mainProvider :: "object_id option"
  up_teamMembers :: "team_entry list option"
  up_equipment :: "equipment_entry list option"

record status_request =
  rq_status :: status
  rq_teamAssignment :: "assignment_update option"

text \<open>\<^verbatim>\<open>{...booking.teamAssignment, ...teamAssignment}\<close>: the keys of the request win.\<close>

definition merge_assignment :: "teamAssignment \<Rightarrow> assignment_update \<Rightarrow> teamAssignment" where
  "merge_assignment old u =
     \<lparr>ta_mainProvider = (case up_mainProvider u of None \<Rightarrow> ta_mainProvider old | Some m \<Rightarrow> Some m),
      ta_teamMembers = (case up_teamMembers u of None \<Rightarrow> ta_teamMembers old | Some ms \<Rightarrow> ms),
      ta_equipment = (case up_equipment u of None \<Rightarrow> ta_equipment old | Some es \<Rightarrow> es)\<rparr>"

definition updateData :: "booking \<Rightarrow> status_request \<Rightarrow> booking \<Rightarrow> booking" where
  "updateData booking rq doc =
     (case rq_teamAssignment rq of
        None \<Rightarrow> doc\<lparr>b_status := rq_status rq\<rparr>
      | Some u \<Rightarrow>
          doc\<lparr>b_status := rq_status rq,
              b_teamAssignment := merge_assignment (b_teamAssignment booking) u\<rparr>)"

text \<open>
  \<^verbatim>\<open>updateBookingStatus\<close> of the booking controller. \<open>providerProfile\<close> is the id of the
  profile found for the requesting user, \<open>None\<close> when there is none (reading its
  \<^verbatim>\<open>_id\<close> then raises). \<^verbatim>\<open>sendBookingConfirmation\<close> catches its own errors and touches
  no booking.
\<close>

definition updateBookingStatus ::
  "object_id option \<Rightarrow> object_id \<Rightarrow> status_request \<Rightarrow> db \<Rightarrow> response \<times> db" where
  "updateBookingStatus providerProfile i rq s =
     (case providerProfile of
        None \<Rightarrow> (ServerError, s)
      | Some pid \<Rightarrow>
          (case Booking_findOne (\<lambda>b. b_id b = i \<and> b_provider b = pid) s of
             (Inl e, s1) \<Rightarrow> (ServerError, s1)
           | (Inr None, s1) \<Rightarrow> (NotFound, s1)
           | (Inr (Some booking), s1) \<Rightarrow>
               (case Booking_findByIdAndUpdate i (updateData booking rq) s1 of
                  (Inl e, s2) \<Rightarrow> (ServerError, s2)
                | (Inr updatedBooking, s2) \<Rightarrow> (Ok_200 updatedBooking, s2))))"

text \<open>
  \<^verbatim>\<open>booking.provider.user\<close> in \<^verbatim>\<open>cancelBooking\<close>: the booking is not populated, its
  \<^verbatim>\<open>provider\<close> is a bare id and has no \<^verbatim>\<open>user\<close>.
\<close>

definition provider_user :: "booking \<Rightarrow> object_id option" where
  "provider_user b = None"

definition cancelBooking :: "object_id \<Rightarrow> object_id \<Rightarrow> string \<Rightarrow> db \<Rightarrow> response \<times> db" where
  "cancelBooking user i reason s =
     (case Booking_findOne (\<lambda>b. b_id b = i) s of
        (Inl e, s1) \<Rightarrow> (ServerError, s1)
      | (Inr None, s1) \<Rightarrow> (NotFound, s1)
      | (Inr (Some booking), s1) \<Rightarrow>
          (let isClient = (b_client booking = user);
               isProvider = (case provider_user booking of None \<Rightarrow> False | Some u \<Rightarrow> u = user)
           in if \<not> isClient \<and> \<not> isProvider then (Forbidden, s1)
              else if b_status booking = Completed \<or> b_status booking = Cancelled
              then (BadRequest ''Booking cannot be cancelled'', s1)
              else
                (let cancelled = booking\<lparr>b_status := Cancelled,
                       b_cancellation := Some \<lparr>cancelledBy = user, cancel_reason = reason\<rparr>\<rparr>
                 in case Booking_save cancelled s1 of
                      (Inl e, s2) \<Rightarrow> (ServerError, s2)
                    | (Inr u, s2) \<Rightarrow> (Ok_200 (Some cancelled), s2))))"

text \<open>\<^verbatim>\<open>updateBookingStatus\<close> of the admin controller.\<close>

definition admin_updateBookingStatus :: "object_id \<Rightarrow> status \<Rightarrow> db \<Rightarrow> response \<times> db" where
  "admin_updateBookingStatus i st s =
     (case Booking_findByIdAndUpdate i (\<lambda>doc. doc\<lparr>b_status := st\<rparr>) s of
        (Inl e, s1) \<Rightarrow> (ServerError, s1)
      | (Inr None, s1) \<Rightarrow> (NotFound, s1)
      | (Inr (Some booking), s1) \<Rightarrow> (Ok_200 (Some booking), s1))"

section \<open>The commitment invariant\<close>

text \<open>
  A booking holds its units while it is confirmed or in progress (the statuses the
  availability query selects). Two bookings double-assign when they belong to one
  provider, both hold their units, fall on the same day with overlapping times, and
  name a common team member or a common piece of equipment.
\<close>

definition committed :: "booking \<Rightarrow> bool" where
  "committed b = (b_status b = Confirmed \<or> b_status b = In_progress)"

definition member_ids :: "booking \<Rightarrow> object_id list" where
  "member_ids b = map tm_member (ta_teamMembers (b_teamAssignment b))"

definition equipment_ids :: "booking \<Rightarrow> object_id list" where
  "equipment_ids b = map eq_item (ta_equipment (b_teamAssignment b))"

definition shares_unit :: "booking \<Rightarrow> booking \<Rightarrow> bool" where
  "shares_unit b c =
     (list_ex (\<lambda>m. m \<in> set (member_ids c)) (member_ids b)
      \<or> list_ex (\<lambda>e. e \<in> set (equipment_ids c)) (equipment_ids b))"

definition bookings_overlap :: "booking \<Rightarrow> booking \<Rightarrow> bool" where
  "bookings_overlap b c =
     (isSame_day (ev_date (b_eventDetails b)) (ev_date (b_eventDetails c))
      \<and> intervalsOverlap (ev_startTime (b_eventDetails b)) (ev_endTime (b_eventDetails b))
            (ev_startTime (b_eventDetails c)) (ev_endTime (b_eventDetails c)))"

definition double_assigned :: "booking \<Rightarrow> booking \<Rightarrow> bool" where
  "double_assigned b c =
     (b_provider b = b_provider c \<and> committed b \<and> committed c
      \<and> bookings_overlap b c \<and> shares_unit b c)"

fun no_double_assignment_in :: "booking list \<Rightarrow> bool" where
  "no_double_assignment_in [] = True"
| "no_double_assignment_in (b # bs) =
     (\<not> list_ex (double_assigned b) bs \<and> no_double_assignment_in bs)"

definition no_double_assignment :: "db \<Rightarrow> bool" where
  "no_double_assignment s = no_double_assignment_in (bookings s)"

section \<open>Scenario data\<close>

text \<open>
  Monday 1 and Monday 8 January 2024, and Wednesday 25 December 2024, at midnight. The
  studio works Mondays from 09:00 to 18:00, has Wednesdays marked unavailable, has
  25 December 2024 and 8 January 2024 among its blackout dates and has two team members.
\<close>

definition monday_2024_01_01 :: instant where
  "monday_2024_01_01 = 1704067200000"

definition monday_2024_01_08 :: instant where
  "monday_2024_01_08 = 1704672000000"

definition christmas_2024 :: instant where
  "christmas_2024 = 1735084800000"

text \<open>The same two days as date strings without a time part.\<close>

definition monday_date :: date_arg where
  "monday_date = Date_only 19723"

definition christmas_date :: date_arg where
  "christmas_date = Date_only 20082"

definition nine_to_six :: working_day where
  "nine_to_six = \<lparr>wd_available = True, wd_start = 540, wd_end = 1080\<rparr>"

definition studio_availability :: availability where
  "studio_availability =
     \<lparr>workingHours = (\<lambda>d. if d = Monday then Some nine_to_six
                           else if d = Wednesday then Some (nine_to_six\<lparr>wd_available := False\<rparr>)
                           else None),
      blackoutDates = [christmas_2024, monday_2024_01_08]\<rparr>"

definition studio :: provider where
  "studio =
     \<lparr>p_id = 1, p_availability = Some studio_availability,
      p_teamMembers = [10, 11], p_equipment = []\<rparr>"

definition empty_db :: db where
  "empty_db = \<lparr>online = True, bookings = []\<rparr>"

section \<open>Day eligibility as the specification words it\<close>

definition is_blackout :: "provider \<Rightarrow> instant \<Rightarrow> bool" where
  "is_blackout p d =
     (case p_availability p of
        None \<Rightarrow> False
      | Some a \<Rightarrow> list_ex (\<lambda>blackoutDate. isSame_day blackoutDate d) (blackoutDates a))"

definition weekday_ineligible :: "provider \<Rightarrow> instant \<Rightarrow> bool" where
  "weekday_ineligible p d =
     (case p_availability p of
        None \<Rightarrow> True
      | Some a \<Rightarrow> (case workingHours a (dayOfWeek d) of None \<Rightarrow> True | Some wh \<Rightarrow> \<not> wd_available wh))"

text \<open>
  A store in which one confirmed booking of the studio on Monday 1 January 2024 names
  three team members, one more than the studio's roster has, and a store whose database
  does not answer.
\<close>

definition crew_of_three :: "team_entry list" where
  "crew_of_three =
     [\<lparr>tm_member = 10, tm_role = ''photographer'', tm_confirmed = False\<rparr>,
      \<lparr>tm_member = 11, tm_role = ''assistant'', tm_confirmed = False\<rparr>,
      \<lparr>tm_member = 12, tm_role = ''editor'', tm_confirmed = False\<rparr>]"

definition overbooked_db :: db where
  "overbooked_db =
     \<lparr>online = True,
      bookings =
        [\<lparr>b_id = 100, b_client = 50, b_provider = 1, b_providerType = Photographer,
          b_eventDetails = \<lparr>ev_date = monday_2024_01_01, ev_startTime = 600, ev_endTime = 720\<rparr>,
          b_teamAssignment = \<lparr>ta_mainProvider = Some 1, ta_teamMembers = crew_of_three, ta_equipment = []\<rparr>,
          b_status = Confirmed, b_cancellation = None\<rparr>]\<rparr>"

definition offline_db :: db where
  "offline_db = \<lparr>online = False, bookings = []\<rparr>"

section \<open>Free units as the specification words them\<close>

text \<open>
  The bookings that hold units of a provider on a day, a unit being committed when one of
  them names it, and the free units: the roster members that are not committed.
\<close>

definition on_day :: "provider \<Rightarrow> instant \<Rightarrow> booking \<Rightarrow> bool" where
  "on_day p d b =
     (b_provider b = p_id p \<and> isSame_day (ev_date (b_eventDetails b)) d \<and> committed b)"

definition day_bookings :: "provider \<Rightarrow> instant \<Rightarrow> db \<Rightarrow> booking list" where
  "day_bookings p d s = filter (on_day p d) (bookings s)"

definition unit_committed :: "provider \<Rightarrow> instant \<Rightarrow> db \<Rightarrow> object_id \<Rightarrow> bool" where
  "unit_committed p d s u = list_ex (\<lambda>b. u \<in> set (member_ids b)) (day_bookings p d s)"

definition spec_freeUnits :: "provider \<Rightarrow> instant \<Rightarrow> db \<Rightarrow> int" where
  "spec_freeUnits p d s =
     int (length (filter (\<lambda>u. \<not> unit_committed p d s u) (p_teamMembers p)))"

text \<open>
  The assignments of a day are tidy when every booking of the day names at least one
  team member, no member is named twice, every member named is on the roster and the
  roster has no duplicates.
\<close>

definition assigned_members :: "provider \<Rightarrow> instant \<Rightarrow> db \<Rightarrow> object_id list" where
  "assigned_members p d s = concat (map member_ids (day_bookings p d s))"

definition assignments_tidy :: "provider \<Rightarrow> instant \<Rightarrow> db \<Rightarrow> bool" where
  "assignments_tidy p d s =
     (list_all (\<lambda>b. member_ids b \<noteq> []) (day_bookings p d s)
      \<and> distinct (assigned_members p d s)
      \<and> list_all (\<lambda>u. u \<in> set (p_teamMembers p)) (assigned_members p d s)
      \<and> distinct (p_teamMembers p))"

text \<open>The figure \<^verbatim>\<open>availableTeamMembers\<close> of the code, over the same bookings.\<close>

definition free_team_members :: "provider \<Rightarrow> instant \<Rightarrow> db \<Rightarrow> int" where
  "free_team_members p d s =
     max 0 (int (length (p_teamMembers p)) - bookedTeamMembers (day_bookings p d s))"

text \<open>
  Two confirmed bookings of the studio on Monday 1 January 2024 that name no team member,
  and one such booking that names one member of the roster.
\<close>

definition unassigned_booking :: "object_id \<Rightarrow> booking" where
  "unassigned_booking i =
     \<lparr>b_id = i, b_client = 50, b_provider = 1, b_providerType = Photographer,
      b_eventDetails = \<lparr>ev_date = monday_2024_01_01, ev_startTime = 600, ev_endTime = 720\<rparr>,
      b_teamAssignment = \<lparr>ta_mainProvider = Some 1, ta_teamMembers = [], ta_equipment = []\<rparr>,
      b_status = Confirmed, b_cancellation = None\<rparr>"

definition unassigned_db :: db where
  "unassigned_db = \<lparr>online = True, bookings = [unassigned_booking 100, unassigned_booking 101]\<rparr>"

definition crew_of_one :: "team_entry list" where
  "crew_of_one = [\<lparr>tm_member = 10, tm_role = ''photographer'', tm_confirmed = False\<rparr>]"

definition one_assigned_db :: db where
  "one_assigned_db =
     \<lparr>online = True,
      bookings = [(unassigned_booking 100)
         \<lparr>b_teamAssignment := \<lparr>ta_mainProvider = Some 1, ta_teamMembers = crew_of_one, ta_equipment = []\<rparr>\<rparr>]\<rparr>"

section \<open>Slots as the specification words them\<close>

text \<open>
  The candidate starts: from the start of the working hours in steps of one hour, as long
  as a slot of \<open>h\<close> hours that starts there ends within the working hours.
\<close>

definition candidate_starts :: "int \<Rightarrow> int \<Rightarrow> int \<Rightarrow> int list" where
  "candidate_starts workStart workEnd h =
     map (\<lambda>k. workStart + 60 * int k) [0 ..< nat ((workEnd - h * 60 - workStart) div 60 + 1)]"

text \<open>
  The slot of \<open>h\<close> hours that starts at \<open>t\<close>, whether it is free of the day's confirmed
  and in-progress bookings (half-open overlap), and the slots on offer: those of the
  candidate starts that are free, in the order of the candidates.
\<close>

definition slot_at :: "int \<Rightarrow> int \<Rightarrow> slot" where
  "slot_at h t = \<lparr>sl_start = t, sl_end = t + h * 60, sl_available = True\<rparr>"

definition slot_is_free :: "provider \<Rightarrow> instant \<Rightarrow> db \<Rightarrow> int \<Rightarrow> int \<Rightarrow> bool" where
  "slot_is_free p d s h t =
     (\<not> list_ex (\<lambda>b. intervalsOverlap t (t + h * 60)
                      (ev_startTime (b_eventDetails b)) (ev_endTime (b_eventDetails b)))
          (day_bookings p d s))"

definition offered_slots :: "provider \<Rightarrow> instant \<Rightarrow> db \<Rightarrow> working_day \<Rightarrow> int \<Rightarrow> slot list" where
  "offered_slots p d s wh h =
     map (slot_at h) (filter (slot_is_free p d s h) (candidate_starts (wd_start wh) (wd_end wh) h))"

section \<open>Booking scenarios\<close>

text \<open>
  Two pending bookings of the studio for Monday 1 January 2024, 10:00 to 12:00, as
  \<^verbatim>\<open>new Booking\<close> builds them, and the request that confirms a booking with the
  studio's team member 10 assigned.
\<close>

definition pending_booking :: "object_id \<Rightarrow> booking" where
  "pending_booking i =
     new_Booking i 50 1 Photographer
       \<lparr>ev_date = monday_2024_01_01, ev_startTime = 600, ev_endTime = 720\<rparr>"

definition two_pending_db :: db where
  "two_pending_db = \<lparr>online = True, bookings = [pending_booking 100, pending_booking 101]\<rparr>"

definition confirm_with_member_10 :: status_request where
  "confirm_with_member_10 =
     \<lparr>rq_status = Confirmed,
      rq_teamAssignment = Some \<lparr>up_mainProvider = None, up_teamMembers = Some crew_of_one,
                                up_equipment = None\<rparr>\<rparr>"

definition confirmed_booking :: "object_id \<Rightarrow> booking" where
  "confirmed_booking i =
     (pending_booking i)
       \<lparr>b_status := Confirmed,
        b_teamAssignment := \<lparr>ta_mainProvider = Some 1, ta_teamMembers = crew_of_one, ta_equipment = []\<rparr>\<rparr>"

definition first_confirmed_db :: db where
  "first_confirmed_db = \<lparr>online = True, bookings = [confirmed_booking 100, pending_booking 101]\<rparr>"

definition both_confirmed_db :: db where
  "both_confirmed_db = \<lparr>online = True, bookings = [confirmed_booking 100, confirmed_booking 101]\<rparr>"

text \<open>
  Booking 100 as its client cancels it, and a request that marks a booking completed and
  carries no assignment.
\<close>

definition cancelled_booking :: "object_id \<Rightarrow> booking" where
  "cancelled_booking i =
     (confirmed_booking i)
       \<lparr>b_status := Cancelled,
        b_cancellation := Some \<lparr>cancelledBy = 50, cancel_reason = ''change of plans''\<rparr>\<rparr>"

definition complete_request :: status_request where
  "complete_request = \<lparr>rq_status = Completed, rq_teamAssignment = None\<rparr>"

text \<open>
  Booking 100 in dispute and booking 100 completed, each alone in the store, and a
  request that sets a booking back to pending.
\<close>

definition disputed_db :: db where
  "disputed_db = \<lparr>online = True, bookings = [(confirmed_booking 100)\<lparr>b_status := Disputed\<rparr>]\<rparr>"

definition completed_db :: db where
  "completed_db = \<lparr>online = True, bookings = [(confirmed_booking 100)\<lparr>b_status := Completed\<rparr>]\<rparr>"

definition reopen_request :: status_request where
  "reopen_request = \<lparr>rq_status = Pending, rq_teamAssignment = None\<rparr>"

text \<open>An event on Monday 1 January 2024 from 10:00 to 12:00.\<close>

definition monday_event :: eventDetails where
  "monday_event = \<lparr>ev_date = monday_2024_01_01, ev_startTime = 600, ev_endTime = 720\<rparr>"

text \<open>The booking as \<^verbatim>\<open>cancelBooking\<close> saves it.\<close>

definition cancelled_by :: "object_id \<Rightarrow> string \<Rightarrow> booking \<Rightarrow> booking" where
  "cancelled_by user reason b =
     b\<lparr>b_status := Cancelled,
       b_cancellation := Some \<lparr>cancelledBy = user, cancel_reason = reason\<rparr>\<rparr>"

text \<open>
  A time string \<^verbatim>\<open>HH:mm\<close>, a day inside the range of JavaScript dates, and a day whose
  confirmed and in-progress bookings all carry times \<^verbatim>\<open>HH:mm\<close>.
\<close>

definition clock_time :: "time_of_day \<Rightarrow> bool" where
  "clock_time t = (0 \<le> t \<and> t < 1440)"

definition javascript_day :: "int \<Rightarrow> bool" where
  "javascript_day d = (- 100000000 \<le> d \<and> d < 100000000)"

definition booked_times_wellformed :: "provider \<Rightarrow> instant \<Rightarrow> db \<Rightarrow> bool" where
  "booked_times_wellformed p d s =
     list_all (\<lambda>b. clock_time (ev_startTime (b_eventDetails b))
                    \<and> clock_time (ev_endTime (b_eventDetails b)))
       (day_bookings p d s)"

section \<open>Overlap test\<close>


section \<open>Day arithmetic and the availability query\<close>

lemma startOf_day_idem: "startOf_day (startOf_day t) = startOf_day t"
  by (simp add: startOf_day_def ms_per_day_def)

lemma dayOfWeek_startOf_day: "dayOfWeek (startOf_day t) = dayOfWeek t"
  unfolding dayOfWeek_def startOf_day_def ms_per_day_def
  by (simp add: minus_mod_eq_mult_div)

lemma isSame_day_startOf_day: "isSame_day b (startOf_day t) = isSame_day b t"
  by (simp add: isSame_day_def startOf_day_idem)

lemma calculateAvailability_online:
  "online s \<Longrightarrow> calculateAvailability p d s =
     (decide_availability p (startOf_day d)
        (filter (day_query (p_id p) (startOf_day d) (endOf_day d)) (bookings s)), s)"
  by (simp add: calculateAvailability_def calculateAvailability_try_def Booking_find_def Let_def)

lemma calculateAvailability_offline:
  "\<not> online s \<Longrightarrow> calculateAvailability p d s =
     (\<lparr>r_available = False, r_reason = Some ''Error calculating availability'',
       r_workingHours = None, r_bookedSlots = [], r_capacity = None\<rparr>, s)"
  by (simp add: calculateAvailability_def calculateAvailability_try_def Booking_find_def Let_def)

lemma studio_christmas:
  "is_blackout studio christmas_2024" "weekday_ineligible studio christmas_2024"
  by (simp_all add: is_blackout_def weekday_ineligible_def studio_def studio_availability_def christmas_2024_def
      monday_2024_01_08_def isSame_day_def startOf_day_def ms_per_day_def dayOfWeek_def nine_to_six_def)

lemma studio_jan_08:
  "is_blackout studio monday_2024_01_08" "\<not> weekday_ineligible studio monday_2024_01_08"
  by (simp_all add: is_blackout_def weekday_ineligible_def studio_def studio_availability_def christmas_2024_def
      monday_2024_01_08_def isSame_day_def startOf_day_def ms_per_day_def dayOfWeek_def nine_to_six_def)

section \<open>Order of the weekday and blackout checks\<close>

text \<open>
  C3, as the code has it. With the database reachable, a date whose weekday is absent
  from the working hours or marked unavailable is answered ``Not available on this day'',
  whether or not it is a blackout date; ``Blackout date'' is the answer for a blackout
  date whose weekday is available. The weekday check comes first.
\<close>

theorem weekday_check_precedes_blackout_check:
  assumes "online s"
  shows "(weekday_ineligible p d \<longrightarrow>
            r_reason (fst (calculateAvailability p d s)) = Some ''Not available on this day'')
       \<and> (\<not> weekday_ineligible p d \<and> is_blackout p d \<longrightarrow>
            r_reason (fst (calculateAvailability p d s)) = Some ''Blackout date'')"
  using assms
  by (auto simp: calculateAvailability_online decide_availability_def weekday_ineligible_def
      is_blackout_def dayOfWeek_startOf_day isSame_day_startOf_day not_available_on_day_def
      split: option.splits)

theorem weekday_check_precedes_blackout_check_witness:
  "online empty_db
   \<and> weekday_ineligible studio christmas_2024
   \<and> r_reason (fst (calculateAvailability studio christmas_2024 empty_db)) = Some ''Not available on this day''
   \<and> \<not> weekday_ineligible studio monday_2024_01_08 \<and> is_blackout studio monday_2024_01_08
   \<and> r_reason (fst (calculateAvailability studio monday_2024_01_08 empty_db)) = Some ''Blackout date''"
proof -
  have on: "online empty_db" by (simp add: empty_db_def)
  show ?thesis
    using on studio_christmas studio_jan_08
      weekday_check_precedes_blackout_check [OF on, of studio christmas_2024]
      weekday_check_precedes_blackout_check [OF on, of studio monday_2024_01_08]
    by simp
qed

text \<open>
  C3 as stated fails: 25 December 2024 is a blackout date of the studio and a Wednesday,
  which the studio has marked unavailable, and the answer is not ``Blackout date''.
\<close>

theorem blackout_precedence_counterexample:
  "is_blackout studio christmas_2024 \<and> weekday_ineligible studio christmas_2024
   \<and> r_reason (fst (calculateAvailability studio christmas_2024 empty_db)) = Some ''Not available on this day''
   \<and> r_reason (fst (calculateAvailability studio christmas_2024 empty_db)) \<noteq> Some ''Blackout date''"
proof -
  have "r_reason (fst (calculateAvailability studio christmas_2024 empty_db)) = Some ''Not available on this day''"
    by (simp add: calculateAvailability_online empty_db_def decide_availability_def
      studio_def studio_availability_def christmas_2024_def startOf_day_def ms_per_day_def dayOfWeek_def nine_to_six_def
      not_available_on_day_def)
  then show ?thesis using studio_christmas by simp
qed

section \<open>Capacity figures\<close>

lemma bookedTeamMembers_foldl:
  "foldl (\<lambda>total b. total + members_or_one b) acc bs = acc + bookedTeamMembers bs"
  unfolding bookedTeamMembers_def
proof (induction bs arbitrary: acc)
  case Nil
  show ?case by simp
next
  case (Cons b bs)
  show ?case
    using Cons.IH [of "acc + members_or_one b"] Cons.IH [of "members_or_one b"] by simp
qed

lemma bookedTeamMembers_Nil: "bookedTeamMembers [] = 0"
  by (simp add: bookedTeamMembers_def)

lemma bookedTeamMembers_Cons:
  "bookedTeamMembers (b # bs) = members_or_one b + bookedTeamMembers bs"
  using bookedTeamMembers_foldl [of "members_or_one b" bs] by (simp add: bookedTeamMembers_def)

lemma members_or_one_pos: "1 \<le> members_or_one b"
  by (cases "ta_teamMembers (b_teamAssignment b)") (simp_all add: members_or_one_def)

lemma bookedTeamMembers_nonneg: "0 \<le> bookedTeamMembers bs"
proof (induction bs)
  case Nil
  show ?case by (simp add: bookedTeamMembers_Nil)
next
  case (Cons b bs)
  then show ?case using members_or_one_pos [of b] by (simp add: bookedTeamMembers_Cons)
qed

lemma decide_capacity:
  assumes "r_capacity (decide_availability p date bs) = Some c"
  shows "c = \<lparr>cap_total = int (length (p_teamMembers p)),
               cap_available = max 0 (int (length (p_teamMembers p)) - bookedTeamMembers bs),
               cap_booked = bookedTeamMembers bs\<rparr>"
  using assms
  by (auto simp: decide_availability_def not_available_on_day_def Let_def
      split: option.splits if_splits)

text \<open>
  C10. Whenever the availability check returns capacity figures, the available count is
  \<open>max 0 (total - booked)\<close>, none of the three figures is negative, the total is the size
  of the roster and the booked count is the sum over the day's confirmed and in-progress
  bookings, also when that sum exceeds the roster.
\<close>

theorem capacity_figures_nonnegative_and_consistent:
  assumes "r_capacity (fst (calculateAvailability p d s)) = Some c"
  shows "cap_available c = max 0 (cap_total c - cap_booked c)
       \<and> 0 \<le> cap_available c \<and> 0 \<le> cap_total c \<and> 0 \<le> cap_booked c
       \<and> cap_total c = int (length (p_teamMembers p))
       \<and> cap_booked c =
           bookedTeamMembers (filter (day_query (p_id p) (startOf_day d) (endOf_day d)) (bookings s))"
proof (cases "online s")
  case True
  let ?bs = "filter (day_query (p_id p) (startOf_day d) (endOf_day d)) (bookings s)"
  from True assms have "r_capacity (decide_availability p (startOf_day d) ?bs) = Some c"
    by (simp add: calculateAvailability_online)
  from decide_capacity [OF this] show ?thesis
    using bookedTeamMembers_nonneg [of ?bs] by simp
next
  case False
  with assms show ?thesis by (simp add: calculateAvailability_offline)
qed

lemma overbooked_capacity:
  "r_capacity (fst (calculateAvailability studio monday_2024_01_01 overbooked_db))
     = Some \<lparr>cap_total = 2, cap_available = 0, cap_booked = 3\<rparr>"
  by (simp add: calculateAvailability_online overbooked_db_def decide_availability_def
      studio_def studio_availability_def monday_2024_01_01_def christmas_2024_def monday_2024_01_08_def
      startOf_day_def endOf_day_def ms_per_day_def dayOfWeek_def nine_to_six_def isSame_day_def
      day_query_def bookedTeamMembers_def members_or_one_def crew_of_three_def Let_def)

theorem capacity_figures_nonnegative_and_consistent_witness:
  "r_capacity (fst (calculateAvailability studio monday_2024_01_01 overbooked_db))
     = Some \<lparr>cap_total = 2, cap_available = 0, cap_booked = 3\<rparr>
   \<and> cap_available \<lparr>cap_total = 2, cap_available = 0, cap_booked = 3\<rparr>
       = max 0 (cap_total \<lparr>cap_total = 2, cap_available = 0, cap_booked = 3\<rparr>
                - cap_booked \<lparr>cap_total = 2, cap_available = 0, cap_booked = 3\<rparr>)
   \<and> (0::int) \<le> cap_available \<lparr>cap_total = 2, cap_available = 0, cap_booked = 3\<rparr>"
  using capacity_figures_nonnegative_and_consistent [OF overbooked_capacity] overbooked_capacity
  by simp

section \<open>The availability check reads only\<close>

text \<open>
  C8. The availability check returns the store it was given, unchanged, and a second call
  with the same arguments on the store the first call left returns the same result.
\<close>

theorem calculateAvailability_read_only_and_repeatable:
  "snd (calculateAvailability p d s) = s
   \<and> fst (calculateAvailability p d (snd (calculateAvailability p d s)))
       = fst (calculateAvailability p d s)"
  by (cases "online s") (simp_all add: calculateAvailability_online calculateAvailability_offline)

theorem calculateAvailability_read_only_and_repeatable_witness:
  "snd (calculateAvailability studio monday_2024_01_01 overbooked_db) = overbooked_db
   \<and> fst (calculateAvailability studio monday_2024_01_01
            (snd (calculateAvailability studio monday_2024_01_01 overbooked_db)))
       = fst (calculateAvailability studio monday_2024_01_01 overbooked_db)"
  using calculateAvailability_read_only_and_repeatable [of studio monday_2024_01_01 overbooked_db]
  by simp

section \<open>Unavailability is a result\<close>

lemma decide_reason:
  "r_reason (decide_availability p date bs)
     \<in> {None, Some ''Not available on this day'', Some ''Blackout date'',
        Some ''No team members available''}
   \<and> (r_available (decide_availability p date bs) \<longleftrightarrow> r_reason (decide_availability p date bs) = None)"
  by (auto simp: decide_availability_def not_available_on_day_def Let_def split: option.splits)

lemma calculateAvailability_try_online:
  "online s \<Longrightarrow> calculateAvailability_try p d s =
     (Inr (decide_availability p (startOf_day d)
        (filter (day_query (p_id p) (startOf_day d) (endOf_day d)) (bookings s))), s)"
  by (simp add: calculateAvailability_try_def Booking_find_def Let_def)

lemma calculateAvailability_try_offline:
  "\<not> online s \<Longrightarrow> calculateAvailability_try p d s = (Inl RepositoryUnavailable, s)"
  by (simp add: calculateAvailability_try_def Booking_find_def Let_def)

lemma findAvailableSlots_unavailable:
  "\<not> r_available (fst (calculateAvailability p (moment_of date) s)) \<Longrightarrow>
     findAvailableSlots p date dur s = ([], s)"
  by (cases "online s")
     (simp_all add: findAvailableSlots_def calculateAvailability_online calculateAvailability_offline)

text \<open>
  C9. With the database reachable nothing is raised inside the availability check: it
  returns a result whose reason is absent (available) or one of the three policy reasons
  (weekday unavailable, blackout date, no team member free). An exception arises only
  when the database does not answer, and is itself turned into a result. The slot query
  returns the empty list whenever the check reports unavailable.
\<close>

theorem unavailability_is_a_result_not_an_exception:
  "(online s \<longrightarrow>
      (\<exists>r. calculateAvailability_try p d s = (Inr r, s)
          \<and> calculateAvailability p d s = (r, s)
          \<and> r_reason r \<in> {None, Some ''Not available on this day'', Some ''Blackout date'',
                           Some ''No team members available''}
          \<and> (r_available r \<longleftrightarrow> r_reason r = None)))
   \<and> (\<not> online s \<longrightarrow>
        calculateAvailability_try p d s = (Inl RepositoryUnavailable, s)
        \<and> \<not> r_available (fst (calculateAvailability p d s))
        \<and> r_reason (fst (calculateAvailability p d s)) = Some ''Error calculating availability'')
   \<and> (\<not> r_available (fst (calculateAvailability p (moment_of date) s)) \<longrightarrow>
        findAvailableSlots p date dur s = ([], s))"
proof (intro conjI impI)
  assume on: "online s"
  let ?r = "decide_availability p (startOf_day d)
              (filter (day_query (p_id p) (startOf_day d) (endOf_day d)) (bookings s))"
  have a: "calculateAvailability_try p d s = (Inr ?r, s)"
    by (rule calculateAvailability_try_online [OF on])
  have b: "calculateAvailability p d s = (?r, s)"
    by (rule calculateAvailability_online [OF on])
  note c = decide_reason [of p "startOf_day d"
      "filter (day_query (p_id p) (startOf_day d) (endOf_day d)) (bookings s)"]
  show "\<exists>r. calculateAvailability_try p d s = (Inr r, s)
          \<and> calculateAvailability p d s = (r, s)
          \<and> r_reason r \<in> {None, Some ''Not available on this day'', Some ''Blackout date'',
                           Some ''No team members available''}
          \<and> (r_available r \<longleftrightarrow> r_reason r = None)"
    by (rule exI [of _ ?r], intro conjI, rule a, rule b, rule c [THEN conjunct1],
        rule c [THEN conjunct2])
next
  assume off: "\<not> online s"
  then show "calculateAvailability_try p d s = (Inl RepositoryUnavailable, s)"
    by (rule calculateAvailability_try_offline)
  from off show "\<not> r_available (fst (calculateAvailability p d s))"
    by (simp add: calculateAvailability_offline)
  from off show "r_reason (fst (calculateAvailability p d s)) = Some ''Error calculating availability''"
    by (simp add: calculateAvailability_offline)
next
  assume "\<not> r_available (fst (calculateAvailability p (moment_of date) s))"
  then show "findAvailableSlots p date dur s = ([], s)"
    by (rule findAvailableSlots_unavailable)
qed

lemma scenario_dates:
  "moment_of monday_date = monday_2024_01_01" "moment_of christmas_date = christmas_2024"
  by (simp_all add: moment_of_def monday_date_def christmas_date_def monday_2024_01_01_def
      christmas_2024_def ms_per_day_def)

lemma christmas_result:
  "calculateAvailability studio christmas_2024 empty_db = (not_available_on_day, empty_db)"
  by (simp add: calculateAvailability_online empty_db_def decide_availability_def
      studio_def studio_availability_def christmas_2024_def startOf_day_def ms_per_day_def dayOfWeek_def nine_to_six_def)

lemma overbooked_result:
  "r_reason (fst (calculateAvailability studio monday_2024_01_01 overbooked_db))
     = Some ''No team members available''"
  by (simp add: calculateAvailability_online overbooked_db_def decide_availability_def
      studio_def studio_availability_def monday_2024_01_01_def christmas_2024_def monday_2024_01_08_def
      startOf_day_def endOf_day_def ms_per_day_def dayOfWeek_def nine_to_six_def isSame_day_def
      day_query_def bookedTeamMembers_def members_or_one_def crew_of_three_def Let_def)

theorem unavailability_is_a_result_not_an_exception_witness:
  "online empty_db
   \<and> calculateAvailability_try studio christmas_2024 empty_db = (Inr not_available_on_day, empty_db)
   \<and> \<not> r_available (fst (calculateAvailability studio christmas_2024 empty_db))
   \<and> findAvailableSlots studio christmas_date (Some 4) empty_db = ([], empty_db)
   \<and> \<not> online offline_db
   \<and> calculateAvailability_try studio christmas_2024 offline_db = (Inl RepositoryUnavailable, offline_db)
   \<and> findAvailableSlots studio christmas_date (Some 4) offline_db = ([], offline_db)"
proof -
  have on: "online empty_db" and off: "\<not> online offline_db"
    by (simp_all add: empty_db_def offline_db_def)
  have un: "\<not> r_available (fst (calculateAvailability studio christmas_2024 empty_db))"
    by (simp add: christmas_result not_available_on_day_def)
  show ?thesis
    using on off un christmas_result scenario_dates(2)
      unavailability_is_a_result_not_an_exception
        [of empty_db studio christmas_2024 christmas_date "Some 4"]
      unavailability_is_a_result_not_an_exception
        [of offline_db studio christmas_2024 christmas_date "Some 4"]
    by auto
qed

section \<open>Capacity and free units\<close>

lemma same_day_iff_between:
  "(startOf_day d \<le> x \<and> x \<le> endOf_day d) = isSame_day x d"
  unfolding isSame_day_def startOf_day_def endOf_day_def ms_per_day_def
  by (simp add: minus_mod_eq_mult_div) linarith

lemma day_query_on_day: "day_query (p_id p) (startOf_day d) (endOf_day d) = on_day p d"
  by (rule ext) (auto simp: day_query_def on_day_def committed_def same_day_iff_between [symmetric])

lemma bookedTeamMembers_tidy:
  "list_all (\<lambda>b. member_ids b \<noteq> []) bs \<Longrightarrow>
     bookedTeamMembers bs = int (length (concat (map member_ids bs)))"
proof (induction bs)
  case Nil
  show ?case by (simp add: bookedTeamMembers_Nil)
next
  case (Cons b bs)
  then show ?case
    by (simp add: bookedTeamMembers_Cons members_or_one_def member_ids_def)
qed

lemma unit_committed_iff: "unit_committed p d s u = (u \<in> set (assigned_members p d s))"
  by (auto simp: unit_committed_def assigned_members_def list_ex_iff)

lemma length_filter_not_in:
  assumes "distinct R" "distinct A" "set A \<subseteq> set R"
  shows "int (length (filter (\<lambda>u. u \<notin> set A) R)) = int (length R) - int (length A)"
proof -
  have "length (filter (\<lambda>u. u \<in> set A) R) = card ({u. u \<in> set A} \<inter> set R)"
    using assms(1) by (rule distinct_length_filter)
  also have "{u. u \<in> set A} \<inter> set R = set A" using assms(3) by auto
  also have "card (set A) = length A" using assms(2) by (rule distinct_card)
  finally have "length (filter (\<lambda>u. u \<in> set A) R) = length A" .
  moreover have "length (filter (\<lambda>u. u \<in> set A) R) + length (filter (\<lambda>u. \<not> u \<in> set A) R) = length R"
    by (rule sum_length_filter_compl)
  ultimately show ?thesis by simp
qed

lemma free_team_members_tidy:
  assumes "assignments_tidy p d s"
  shows "free_team_members p d s = spec_freeUnits p d s"
proof -
  let ?A = "assigned_members p d s" and ?R = "p_teamMembers p"
  from assms have ne: "list_all (\<lambda>b. member_ids b \<noteq> []) (day_bookings p d s)"
    and dA: "distinct ?A" and sub: "set ?A \<subseteq> set ?R" and dR: "distinct ?R"
    by (auto simp: assignments_tidy_def list_all_iff)
  have booked: "bookedTeamMembers (day_bookings p d s) = int (length ?A)"
    using bookedTeamMembers_tidy [OF ne] by (simp add: assigned_members_def)
  have free: "spec_freeUnits p d s = int (length ?R) - int (length ?A)"
    using length_filter_not_in [OF dR dA sub]
    by (simp add: spec_freeUnits_def unit_committed_iff)
  have "length ?A = card (set ?A)" using dA by (simp add: distinct_card)
  also have "\<dots> \<le> card (set ?R)" using sub by (simp add: card_mono)
  also have "\<dots> \<le> length ?R" by (rule card_length)
  finally have "length ?A \<le> length ?R" .
  then show ?thesis by (simp add: free_team_members_def booked free)
qed

text \<open>
  C4, as the code has it. On an eligible day (database reachable, weekday available, no
  blackout) the check reports available exactly when at least one team member is free
  by the code's count: roster size minus the sum, over the provider's confirmed and
  in-progress bookings of that date, of the number of team members each names, a booking
  that names none counting as one, and never below zero. When not available the reason is
  ``No team members available''. There is no parameter for the units required: one is
  required. The code's count is the number of roster members not committed whenever the
  day's assignments are tidy.
\<close>

theorem availability_counts_assignment_entries:
  assumes "online s" "\<not> weekday_ineligible p d" "\<not> is_blackout p d"
  shows "r_available (fst (calculateAvailability p d s)) = (free_team_members p d s \<ge> 1)
       \<and> r_reason (fst (calculateAvailability p d s))
           = (if free_team_members p d s \<ge> 1 then None else Some ''No team members available'')
       \<and> (assignments_tidy p d s \<longrightarrow> free_team_members p d s = spec_freeUnits p d s)"
proof -
  from assms(2) obtain a wh where a: "p_availability p = Some a"
    and wh: "workingHours a (dayOfWeek d) = Some wh" and av: "wd_available wh"
    by (auto simp: weekday_ineligible_def split: option.splits)
  from assms(3) a have nb: "\<not> list_ex (\<lambda>blackoutDate. isSame_day blackoutDate d) (blackoutDates a)"
    by (simp add: is_blackout_def)
  have "calculateAvailability p d s
          = (decide_availability p (startOf_day d) (day_bookings p d s), s)"
    using assms(1) by (simp add: calculateAvailability_online day_query_on_day day_bookings_def)
  then show ?thesis
    using a wh av nb free_team_members_tidy [of p d s]
    by (auto simp: decide_availability_def dayOfWeek_startOf_day isSame_day_startOf_day
        Let_def free_team_members_def)
qed

lemma monday_eligible:
  "\<not> weekday_ineligible studio monday_2024_01_01" "\<not> is_blackout studio monday_2024_01_01"
  by (simp_all add: is_blackout_def weekday_ineligible_def studio_def studio_availability_def christmas_2024_def
      monday_2024_01_08_def monday_2024_01_01_def isSame_day_def startOf_day_def ms_per_day_def
      dayOfWeek_def nine_to_six_def)

lemma unassigned_day_bookings:
  "day_bookings studio monday_2024_01_01 unassigned_db = [unassigned_booking 100, unassigned_booking 101]"
  by (simp add: day_bookings_def unassigned_db_def on_day_def unassigned_booking_def studio_def studio_availability_def
      committed_def isSame_day_def)

lemma unassigned_spec_free: "spec_freeUnits studio monday_2024_01_01 unassigned_db = 2"
  by (simp add: spec_freeUnits_def unit_committed_def unassigned_day_bookings member_ids_def
      unassigned_booking_def) (simp add: studio_def studio_availability_def)

lemma unassigned_free: "free_team_members studio monday_2024_01_01 unassigned_db = 0"
  by (simp add: free_team_members_def unassigned_day_bookings bookedTeamMembers_Cons
      bookedTeamMembers_Nil members_or_one_def unassigned_booking_def) (simp add: studio_def studio_availability_def)

text \<open>
  C4 as stated fails: with two confirmed bookings that name no team member, no member of
  the studio's roster of two is committed, yet the check reports not available.
\<close>

theorem free_units_counterexample:
  "\<not> weekday_ineligible studio monday_2024_01_01 \<and> \<not> is_blackout studio monday_2024_01_01
   \<and> spec_freeUnits studio monday_2024_01_01 unassigned_db = 2
   \<and> free_team_members studio monday_2024_01_01 unassigned_db = 0
   \<and> \<not> r_available (fst (calculateAvailability studio monday_2024_01_01 unassigned_db))
   \<and> r_available (fst (calculateAvailability studio monday_2024_01_01 unassigned_db))
       \<noteq> (spec_freeUnits studio monday_2024_01_01 unassigned_db \<ge> 1)"
proof -
  have "\<not> r_available (fst (calculateAvailability studio monday_2024_01_01 unassigned_db))"
    by (simp add: calculateAvailability_online unassigned_db_def decide_availability_def
      studio_def studio_availability_def monday_2024_01_01_def christmas_2024_def monday_2024_01_08_def
      startOf_day_def endOf_day_def ms_per_day_def dayOfWeek_def nine_to_six_def isSame_day_def
      day_query_def bookedTeamMembers_def members_or_one_def unassigned_booking_def Let_def)
  then show ?thesis using monday_eligible unassigned_spec_free unassigned_free by simp
qed

lemma one_assigned_day_bookings:
  "day_bookings studio monday_2024_01_01 one_assigned_db = bookings one_assigned_db"
  by (simp add: day_bookings_def one_assigned_db_def on_day_def unassigned_booking_def studio_def studio_availability_def
      committed_def isSame_day_def)

lemma one_assigned_tidy: "assignments_tidy studio monday_2024_01_01 one_assigned_db"
  by (simp add: assignments_tidy_def assigned_members_def one_assigned_day_bookings)
     (simp add: one_assigned_db_def member_ids_def unassigned_booking_def crew_of_one_def studio_def studio_availability_def)

theorem availability_counts_assignment_entries_witness:
  "online one_assigned_db
   \<and> \<not> weekday_ineligible studio monday_2024_01_01 \<and> \<not> is_blackout studio monday_2024_01_01
   \<and> assignments_tidy studio monday_2024_01_01 one_assigned_db
   \<and> free_team_members studio monday_2024_01_01 one_assigned_db = 1
   \<and> spec_freeUnits studio monday_2024_01_01 one_assigned_db = 1
   \<and> r_available (fst (calculateAvailability studio monday_2024_01_01 one_assigned_db))
   \<and> r_reason (fst (calculateAvailability studio monday_2024_01_01 one_assigned_db)) = None"
proof -
  have on: "online one_assigned_db" by (simp add: one_assigned_db_def)
  have free: "free_team_members studio monday_2024_01_01 one_assigned_db = 1"
    by (simp add: free_team_members_def one_assigned_day_bookings)
       (simp add: one_assigned_db_def bookedTeamMembers_Cons bookedTeamMembers_Nil
          members_or_one_def unassigned_booking_def crew_of_one_def studio_def studio_availability_def)
  show ?thesis
    using on free one_assigned_tidy monday_eligible
      availability_counts_assignment_entries [OF on monday_eligible(1) monday_eligible(2)]
    by simp
qed

section \<open>Store operations and the commitment invariant\<close>

lemma uncommitted_never_double_assigned:
  "\<not> committed b \<Longrightarrow> \<not> double_assigned b c \<and> \<not> double_assigned c b"
  by (simp add: double_assigned_def)

lemma update_first_keeps_clear:
  assumes "\<not> list_ex (double_assigned x) xs" "\<And>b. \<not> committed (f b)"
  shows "\<not> list_ex (double_assigned x) (update_first q f xs)"
  using assms(1)
proof (induction xs)
  case Nil
  show ?case by simp
next
  case (Cons y ys)
  then show ?case
    using uncommitted_never_double_assigned [OF assms(2), of y x] by simp
qed

lemma update_first_preserves:
  assumes "no_double_assignment_in bs" "\<And>b. \<not> committed (f b)"
  shows "no_double_assignment_in (update_first q f bs)"
  using assms(1)
proof (induction bs)
  case Nil
  show ?case by simp
next
  case (Cons x xs)
  show ?case
  proof (cases "q x")
    case True
    have "\<not> list_ex (double_assigned (f x)) xs"
      using uncommitted_never_double_assigned [OF assms(2), of x] by (simp add: list_ex_iff)
    with True Cons.prems show ?thesis by simp
  next
    case False
    with Cons show ?thesis
      using update_first_keeps_clear [of x xs f q] assms(2) by simp
  qed
qed

lemma append_preserves:
  assumes "no_double_assignment_in bs" "\<not> committed b"
  shows "no_double_assignment_in (bs @ [b])"
  using assms(1)
proof (induction bs)
  case Nil
  show ?case by simp
next
  case (Cons x xs)
  then show ?case
    using uncommitted_never_double_assigned [OF assms(2), of x] by simp
qed

lemma Booking_save_preserves:
  assumes "no_double_assignment s" "\<not> committed b"
  shows "no_double_assignment (snd (Booking_save b s))"
  using assms update_first_preserves [of "bookings s" "\<lambda>_. b" "\<lambda>c. b_id c = b_id b"]
    append_preserves [of "bookings s" b]
  by (simp add: Booking_save_def no_double_assignment_def)

lemma Booking_findByIdAndUpdate_preserves:
  assumes "no_double_assignment s" "\<And>doc. \<not> committed (f doc)"
  shows "no_double_assignment (snd (Booking_findByIdAndUpdate i f s))"
  using assms update_first_preserves [of "bookings s" f "\<lambda>b. b_id b = i"]
  by (simp add: Booking_findByIdAndUpdate_def no_double_assignment_def)

lemma Booking_findOne_store: "snd (Booking_findOne q s) = s"
  by (simp add: Booking_findOne_def)

lemma calculateAvailability_store: "snd (calculateAvailability p d s) = s"
  by (cases "online s") (simp_all add: calculateAvailability_online calculateAvailability_offline)

lemma cancelBooking_preserves:
  assumes "no_double_assignment s"
  shows "no_double_assignment (snd (cancelBooking user i reason s))"
proof (cases "Booking_findOne (\<lambda>b. b_id b = i) s")
  case (Pair res s1)
  then have s1: "s1 = s" using Booking_findOne_store [of "\<lambda>b. b_id b = i" s] by simp
  show ?thesis
  proof (cases res)
    case (Inl e)
    with Pair s1 assms show ?thesis by (simp add: cancelBooking_def)
  next
    case (Inr found)
    show ?thesis
    proof (cases found)
      case None
      with Pair Inr s1 assms show ?thesis by (simp add: cancelBooking_def)
    next
      case (Some booking)
      let ?c = "booking\<lparr>b_status := Cancelled,
                   b_cancellation := Some \<lparr>cancelledBy = user, cancel_reason = reason\<rparr>\<rparr>"
      have nc: "\<not> committed ?c" by (simp add: committed_def)
      note sv = Booking_save_preserves [OF assms nc]
      obtain r2 s2 where sp: "Booking_save ?c s = (r2, s2)" by (cases "Booking_save ?c s")
      with sv have "no_double_assignment s2" by simp
      with Pair Inr Some s1 assms sp show ?thesis
        by (auto simp: cancelBooking_def Let_def split: sum.splits)
    qed
  qed
qed

lemma calculateAvailability_without_availability:
  "p_availability p = None \<Longrightarrow> online s \<Longrightarrow>
     calculateAvailability p d s = (not_available_on_day, s)"
  by (simp add: calculateAvailability_online decide_availability_def)

lemma createBooking_refuses:
  "createBooking user docs providerId ptype ev fresh s
     = (if online s then (BadRequest ''Provider not available on selected date'', s)
        else (ServerError, s))"
  by (simp add: createBooking_def calculateAvailability_without_availability
      array_as_provider_def not_available_on_day_def)

lemma createBooking_preserves:
  assumes "no_double_assignment s"
  shows "no_double_assignment (snd (createBooking user docs providerId ptype ev fresh s))"
  using assms by (simp add: createBooking_refuses)

lemma updateBookingStatus_preserves:
  assumes "no_double_assignment s" "rq_status rq \<noteq> Confirmed" "rq_status rq \<noteq> In_progress"
  shows "no_double_assignment (snd (updateBookingStatus pp i rq s))"
proof (cases pp)
  case None
  with assms show ?thesis by (simp add: updateBookingStatus_def)
next
  case (Some pid)
  obtain res s1 where fo: "Booking_findOne (\<lambda>b. b_id b = i \<and> b_provider b = pid) s = (res, s1)"
    by (cases "Booking_findOne (\<lambda>b. b_id b = i \<and> b_provider b = pid) s")
  then have s1: "s1 = s"
    using Booking_findOne_store [of "\<lambda>b. b_id b = i \<and> b_provider b = pid" s] by simp
  have nc: "\<not> committed (updateData booking rq doc)" for booking doc
    using assms(2,3) by (simp add: updateData_def committed_def split: option.splits)
  have up: "no_double_assignment (snd (Booking_findByIdAndUpdate i (updateData booking rq) s))"
    for booking
    by (rule Booking_findByIdAndUpdate_preserves [OF assms(1)]) (rule nc)
  show ?thesis
  proof (cases res)
    case (Inl e)
    with Some fo s1 assms show ?thesis by (simp add: updateBookingStatus_def)
  next
    case (Inr found)
    show ?thesis
    proof (cases found)
      case None
      with Some fo Inr s1 assms show ?thesis by (simp add: updateBookingStatus_def)
    next
      case (Some booking)
      obtain r2 s2 where u: "Booking_findByIdAndUpdate i (updateData booking rq) s = (r2, s2)"
        by (cases "Booking_findByIdAndUpdate i (updateData booking rq) s")
      with up [of booking] have "no_double_assignment s2" by simp
      with \<open>pp = Some pid\<close> fo Inr Some s1 u show ?thesis
        by (auto simp: updateBookingStatus_def split: sum.splits)
    qed
  qed
qed

lemma admin_updateBookingStatus_preserves:
  assumes "no_double_assignment s" "st \<noteq> Confirmed" "st \<noteq> In_progress"
  shows "no_double_assignment (snd (admin_updateBookingStatus i st s))"
proof -
  have nc: "\<not> committed (doc\<lparr>b_status := st\<rparr>)" for doc
    using assms(2,3) by (simp add: committed_def)
  obtain r2 s2 where u: "Booking_findByIdAndUpdate i (\<lambda>doc. doc\<lparr>b_status := st\<rparr>) s = (r2, s2)"
    by (cases "Booking_findByIdAndUpdate i (\<lambda>doc. doc\<lparr>b_status := st\<rparr>) s")
  with Booking_findByIdAndUpdate_preserves [OF assms(1), of "\<lambda>doc. doc\<lparr>b_status := st\<rparr>" i] nc
  have "no_double_assignment s2" by simp
  with u show ?thesis
    by (auto simp: admin_updateBookingStatus_def split: sum.splits option.splits)
qed

lemma confirm_first:
  "updateBookingStatus (Some 1) 100 confirm_with_member_10 two_pending_db
     = (Ok_200 (Some (confirmed_booking 100)), first_confirmed_db)"
  by (simp add: updateBookingStatus_def Booking_findOne_def Booking_findByIdAndUpdate_def
      two_pending_db_def first_confirmed_db_def confirmed_booking_def pending_booking_def
      new_Booking_def updateData_def confirm_with_member_10_def merge_assignment_def)

lemma confirm_second:
  "updateBookingStatus (Some 1) 101 confirm_with_member_10 first_confirmed_db
     = (Ok_200 (Some (confirmed_booking 101)), both_confirmed_db)"
  by (simp add: updateBookingStatus_def Booking_findOne_def Booking_findByIdAndUpdate_def
      both_confirmed_db_def first_confirmed_db_def confirmed_booking_def pending_booking_def
      new_Booking_def updateData_def confirm_with_member_10_def merge_assignment_def)

lemma confirmed_bookings_clash: "double_assigned (confirmed_booking 100) (confirmed_booking 101)"
  by (simp add: double_assigned_def confirmed_booking_def pending_booking_def new_Booking_def
      committed_def bookings_overlap_def isSame_day_def intervalsOverlap_def shares_unit_def
      member_ids_def crew_of_one_def)

lemma scenario_invariant:
  "no_double_assignment two_pending_db" "no_double_assignment first_confirmed_db"
  "\<not> no_double_assignment both_confirmed_db"
  using confirmed_bookings_clash
  by (simp_all add: no_double_assignment_def two_pending_db_def first_confirmed_db_def
      both_confirmed_db_def uncommitted_never_double_assigned committed_def pending_booking_def
      new_Booking_def)

text \<open>
  C1, as the code has it. From a store without double assignment, creating a booking,
  cancelling a booking, and a status update by the provider or by an admin that writes a
  status other than confirmed and in progress each leave a store without double
  assignment. (A status update that writes confirmed or in progress is not checked
  against the other bookings.)
\<close>

theorem releasing_operations_preserve_no_double_assignment:
  assumes "no_double_assignment s"
  shows "no_double_assignment (snd (createBooking user docs providerId ptype ev fresh s))
       \<and> no_double_assignment (snd (cancelBooking user i reason s))
       \<and> (rq_status rq \<noteq> Confirmed \<and> rq_status rq \<noteq> In_progress
            \<longrightarrow> no_double_assignment (snd (updateBookingStatus pp i rq s)))
       \<and> (st \<noteq> Confirmed \<and> st \<noteq> In_progress
            \<longrightarrow> no_double_assignment (snd (admin_updateBookingStatus i st s)))"
  using createBooking_preserves [OF assms] cancelBooking_preserves [OF assms]
    updateBookingStatus_preserves [OF assms] admin_updateBookingStatus_preserves [OF assms]
  by blast

text \<open>
  C1 as stated fails: the provider confirms booking 100 and then booking 101, both for
  Monday 10:00 to 12:00, each with team member 10. Both updates succeed, and the store
  they leave has member 10 assigned to two confirmed overlapping bookings.
\<close>

theorem confirmation_double_assigns_counterexample:
  "no_double_assignment two_pending_db
   \<and> updateBookingStatus (Some 1) 100 confirm_with_member_10 two_pending_db
       = (Ok_200 (Some (confirmed_booking 100)), first_confirmed_db)
   \<and> no_double_assignment first_confirmed_db
   \<and> updateBookingStatus (Some 1) 101 confirm_with_member_10 first_confirmed_db
       = (Ok_200 (Some (confirmed_booking 101)), both_confirmed_db)
   \<and> \<not> no_double_assignment both_confirmed_db"
  using scenario_invariant confirm_first confirm_second by simp

lemma cancel_first:
  "cancelBooking 50 100 ''change of plans'' first_confirmed_db
     = (Ok_200 (Some (cancelled_booking 100)),
        \<lparr>online = True, bookings = [cancelled_booking 100, pending_booking 101]\<rparr>)"
  by (simp add: cancelBooking_def Booking_findOne_def Booking_save_def provider_user_def
      first_confirmed_db_def confirmed_booking_def pending_booking_def new_Booking_def
      cancelled_booking_def Let_def)

theorem releasing_operations_preserve_no_double_assignment_witness:
  "no_double_assignment first_confirmed_db
   \<and> no_double_assignment
        (snd (createBooking 51 [studio] 1 Photographer
                \<lparr>ev_date = monday_2024_01_01, ev_startTime = 600, ev_endTime = 720\<rparr> 102
                first_confirmed_db))
   \<and> cancelBooking 50 100 ''change of plans'' first_confirmed_db
       = (Ok_200 (Some (cancelled_booking 100)),
          \<lparr>online = True, bookings = [cancelled_booking 100, pending_booking 101]\<rparr>)
   \<and> no_double_assignment \<lparr>online = True, bookings = [cancelled_booking 100, pending_booking 101]\<rparr>
   \<and> rq_status complete_request \<noteq> Confirmed \<and> rq_status complete_request \<noteq> In_progress
   \<and> no_double_assignment (snd (updateBookingStatus (Some 1) 100 complete_request first_confirmed_db))
   \<and> no_double_assignment (snd (admin_updateBookingStatus 100 Disputed first_confirmed_db))"
  using scenario_invariant(2) cancel_first
    releasing_operations_preserve_no_double_assignment [OF scenario_invariant(2),
      where user = 50 and i = 100 and reason = "''change of plans''" and rq = complete_request
        and pp = "Some 1" and st = Disputed]
    releasing_operations_preserve_no_double_assignment [OF scenario_invariant(2),
      where user = 51 and docs = "[studio]" and providerId = 1 and ptype = Photographer
        and ev = "\<lparr>ev_date = monday_2024_01_01, ev_startTime = 600, ev_endTime = 720\<rparr>"
        and fresh = 102]
  by (simp add: complete_request_def)

section \<open>Status updates carry no assignment guard\<close>

lemma find_with_owner:
  assumes "find (\<lambda>b. b_id b = i) bs = Some b" "b_provider b = pid"
  shows "find (\<lambda>b. b_id b = i \<and> b_provider b = pid) bs = Some b"
  using assms by (induction bs) (auto split: if_splits)

lemma updateBookingStatus_owned:
  assumes "online s" "find (\<lambda>b. b_id b = i) (bookings s) = Some b" "b_provider b = pid"
  shows "updateBookingStatus (Some pid) i rq s
           = (Ok_200 (Some (updateData b rq b)),
              s\<lparr>bookings := update_first (\<lambda>c. b_id c = i) (updateData b rq) (bookings s)\<rparr>)"
  using assms find_with_owner [OF assms(2,3)]
  by (simp add: updateBookingStatus_def Booking_findOne_def Booking_findByIdAndUpdate_def)







section \<open>Slots offered\<close>

lemma candidate_starts_step:
  assumes "c + h * 60 \<le> w"
  shows "candidate_starts c w h = c # candidate_starts (c + 60) w h"
proof -
  define m where "m = (w - h * 60 - c) div 60"
  from assms have m0: "0 \<le> m" by (simp add: m_def)
  have n1: "nat ((w - h * 60 - c) div 60 + 1) = Suc (nat m)"
    using m0 by (simp add: m_def nat_add_distrib)
  have "(w - h * 60 - (c + 60)) div 60 = m - 1"
  proof -
    have "w - h * 60 - (c + 60) = (w - h * 60 - c) + (-1) * 60" by simp
    then have "(w - h * 60 - (c + 60)) div 60 = (w - h * 60 - c) div 60 + (-1)"
      by (simp only: div_mult_self1 [of 60 "w - h * 60 - c" "-1"] ) 
    then show ?thesis by (simp add: m_def)
  qed
  then have n2: "nat ((w - h * 60 - (c + 60)) div 60 + 1) = nat m" by simp
  show ?thesis
    unfolding candidate_starts_def n1 n2 map_upt_Suc
    by (simp add: algebra_simps)
qed

lemma candidate_starts_stop:
  assumes "\<not> c + h * 60 \<le> w"
  shows "candidate_starts c w h = []"
proof -
  from assms have "w - h * 60 - c < 0" by simp
  then have "(w - h * 60 - c) div 60 < 0" by simp
  then show ?thesis by (simp add: candidate_starts_def)
qed

text \<open>The loop between two valid moments of one day, for a positive duration.\<close>

lemma slot_loop_candidates:
  assumes "0 < h" "- max_time \<le> base + c * 60000" "base + w * 60000 \<le> max_time"
  shows "slot_loop date (Some (base + c * 60000)) (Some (base + w * 60000)) h bs
     = map (\<lambda>t. \<lparr>sl_start = format_HHmm (Some (base + t * 60000)),
                  sl_end = format_HHmm (Some (base + (t + h * 60) * 60000)),
                  sl_available = True\<rparr>)
         (filter (\<lambda>t. \<not> hasConflict date (Some (base + t * 60000))
                         (Some (base + (t + h * 60) * 60000)) bs)
            (candidate_starts c w h))"
  using assms(2)
proof (induction "nat (w - h * 60 - c + 1)" arbitrary: c rule: less_induct)
  case less
  show ?case
  proof (cases "c + h * 60 \<le> w")
    case True
    have e: "add_hours (Some (base + c * 60000)) h = Some (base + (c + h * 60) * 60000)"
      using True assms(1,3) less.prems
      by (simp add: add_hours_def mk_moment_def algebra_simps)
    have n: "add_hours (Some (base + c * 60000)) 1 = Some (base + (c + 60) * 60000)"
      using True assms(1,3) less.prems
      by (simp add: add_hours_def mk_moment_def algebra_simps)
    have go: "isSameOrBefore (Some (base + (c + h * 60) * 60000)) (Some (base + w * 60000))"
      using True by (simp add: isSameOrBefore_def)
    have "nat (w - h * 60 - (c + 60) + 1) < nat (w - h * 60 - c + 1)"
      using True by simp
    moreover have "- max_time \<le> base + (c + 60) * 60000"
      using less.prems by simp
    ultimately have ih: "slot_loop date (Some (base + (c + 60) * 60000)) (Some (base + w * 60000)) h bs
     = map (\<lambda>t. \<lparr>sl_start = format_HHmm (Some (base + t * 60000)),
                  sl_end = format_HHmm (Some (base + (t + h * 60) * 60000)),
                  sl_available = True\<rparr>)
         (filter (\<lambda>t. \<not> hasConflict date (Some (base + t * 60000))
                         (Some (base + (t + h * 60) * 60000)) bs)
            (candidate_starts (c + 60) w h))"
      by (rule less.hyps)
    have step: "slot_loop date (Some (base + c * 60000)) (Some (base + w * 60000)) h bs
        = (if \<not> hasConflict date (Some (base + c * 60000))
                   (Some (base + (c + h * 60) * 60000)) bs
           then [\<lparr>sl_start = format_HHmm (Some (base + c * 60000)),
                   sl_end = format_HHmm (Some (base + (c + h * 60) * 60000)),
                   sl_available = True\<rparr>]
           else [])
          @ slot_loop date (Some (base + (c + 60) * 60000)) (Some (base + w * 60000)) h bs"
      by (subst slot_loop.simps) (simp only: e n go Let_def if_True)
    show ?thesis
      unfolding step ih candidate_starts_step [OF True] by simp
  next
    case False
    have "\<not> isSameOrBefore (add_hours (Some (base + c * 60000)) h) (Some (base + w * 60000))"
      using False
      by (simp add: add_hours_def mk_moment_def isSameOrBefore_def algebra_simps)
    then show ?thesis
      by (subst slot_loop.simps) (simp add: candidate_starts_stop [OF False])
  qed
qed

lemma format_in_day:
  assumes "0 \<le> t" "t < 1440"
  shows "format_HHmm (Some (d * ms_per_day + t * 60000)) = t"
proof -
  have "(d * 86400000 + t * 60000) mod 86400000 = (t * 60000) mod 86400000"
    by (simp add: mod_add_eq [symmetric])
  also have "\<dots> = t * 60000" using assms by simp
  finally show ?thesis by (simp add: format_HHmm_def ms_per_day_def)
qed

lemma moment_at_in_day:
  assumes "javascript_day d" "clock_time t"
  shows "moment_at (Date_only d) t = Some (d * ms_per_day + t * 60000)"
  using assms
  by (simp add: moment_at_def mk_moment_def javascript_day_def clock_time_def ms_per_day_def
      max_time_def)

lemma hasConflict_in_day:
  assumes "javascript_day d"
    "list_all (\<lambda>b. clock_time (ev_startTime (b_eventDetails b))
                    \<and> clock_time (ev_endTime (b_eventDetails b))) bks"
  shows "hasConflict (Date_only d) (Some (d * ms_per_day + t * 60000))
           (Some (d * ms_per_day + (t + h * 60) * 60000)) (map to_bookedSlot bks)
       = list_ex (\<lambda>b. intervalsOverlap t (t + h * 60)
                        (ev_startTime (b_eventDetails b)) (ev_endTime (b_eventDetails b))) bks"
  using assms(2)
proof (induction bks)
  case Nil
  show ?case by (simp add: hasConflict_def)
next
  case (Cons b bks)
  then have st: "clock_time (ev_startTime (b_eventDetails b))"
    and en: "clock_time (ev_endTime (b_eventDetails b))" by simp_all
  have "slot_conflicts (Some (d * ms_per_day + t * 60000))
           (Some (d * ms_per_day + (t + h * 60) * 60000))
           (moment_at (Date_only d) (ev_startTime (b_eventDetails b)))
           (moment_at (Date_only d) (ev_endTime (b_eventDetails b)))
        = intervalsOverlap t (t + h * 60)
            (ev_startTime (b_eventDetails b)) (ev_endTime (b_eventDetails b))"
    by (auto simp: moment_at_in_day [OF assms(1) st] moment_at_in_day [OF assms(1) en]
        slot_conflicts_def intervalsOverlap_def)
  with Cons show ?case by (simp add: hasConflict_def to_bookedSlot_def)
qed

lemma candidate_starts_bounds:
  assumes "t \<in> set (candidate_starts c w h)"
  shows "c \<le> t \<and> t + h * 60 \<le> w"
proof -
  from assms obtain k where k: "k < nat ((w - h * 60 - c) div 60 + 1)" and t: "t = c + 60 * int k"
    by (auto simp: candidate_starts_def)
  from k have "int k \<le> (w - h * 60 - c) div 60" by linarith
  then have "60 * int k \<le> 60 * ((w - h * 60 - c) div 60)" by simp
  also have "\<dots> \<le> w - h * 60 - c"
    using mult_div_mod_eq [of 60 "w - h * 60 - c"] pos_mod_sign [of 60 "w - h * 60 - c"] by linarith
  finally show ?thesis using t by simp
qed

lemma candidate_starts_increasing: "sorted_wrt (<) (candidate_starts c w h)"
  unfolding candidate_starts_def by (simp add: sorted_wrt_map sorted_wrt_mono_rel [OF _ sorted_wrt_upt])

lemma offered_slots_ordered_within_hours:
  "sorted_wrt (<) (map sl_start (offered_slots p d s wh h))
   \<and> list_all (\<lambda>sl. wd_start wh \<le> sl_start sl \<and> sl_end sl = sl_start sl + h * 60
                      \<and> sl_end sl \<le> wd_end wh) (offered_slots p d s wh h)"
proof -
  let ?cs = "filter (slot_is_free p d s h) (candidate_starts (wd_start wh) (wd_end wh) h)"
  have "map sl_start (offered_slots p d s wh h) = ?cs"
    by (simp add: offered_slots_def slot_at_def comp_def)
  moreover have "sorted_wrt (<) ?cs"
    by (rule sorted_wrt_filter [OF candidate_starts_increasing])
  moreover have "list_all (\<lambda>sl. wd_start wh \<le> sl_start sl \<and> sl_end sl = sl_start sl + h * 60
                          \<and> sl_end sl \<le> wd_end wh) (offered_slots p d s wh h)"
    unfolding offered_slots_def list_all_iff
    using candidate_starts_bounds [of _ "wd_start wh" "wd_end wh" h] by (auto simp: slot_at_def)
  ultimately show ?thesis by simp
qed

lemma findAvailableSlots_in_day:
  assumes on: "online s" and day: "javascript_day d"
    and a: "p_availability p = Some a"
    and wh: "workingHours a (dayOfWeek (moment_of (Date_only d))) = Some wh"
    and av: "wd_available wh" and ws: "clock_time (wd_start wh)" and we: "clock_time (wd_end wh)"
    and nb: "\<not> is_blackout p (moment_of (Date_only d))"
    and free: "1 \<le> free_team_members p (moment_of (Date_only d)) s"
    and wf: "booked_times_wellformed p (moment_of (Date_only d)) s"
    and h: "0 < slotDuration_of dur"
  shows "findAvailableSlots p (Date_only d) dur s
           = (offered_slots p (moment_of (Date_only d)) s wh (slotDuration_of dur), s)"
proof -
  let ?D = "moment_of (Date_only d)" and ?h = "slotDuration_of dur"
  let ?bks = "day_bookings p ?D s"
  have base: "?D = d * ms_per_day" by (simp add: moment_of_def)
  from nb a have nbl: "\<not> list_ex (\<lambda>blackoutDate. isSame_day blackoutDate ?D) (blackoutDates a)"
    by (auto simp: is_blackout_def)
  have ca: "calculateAvailability p ?D s = (decide_availability p (startOf_day ?D) ?bks, s)"
    using on by (simp add: calculateAvailability_online day_query_on_day day_bookings_def)
  have dec: "decide_availability p (startOf_day ?D) ?bks
      = \<lparr>r_available = True, r_reason = None, r_workingHours = Some wh,
         r_bookedSlots = map to_bookedSlot ?bks,
         r_capacity = Some \<lparr>cap_total = int (length (p_teamMembers p)),
                            cap_available = free_team_members p ?D s,
                            cap_booked = bookedTeamMembers ?bks\<rparr>\<rparr>"
    using a wh av free nbl
    by (auto simp: decide_availability_def dayOfWeek_startOf_day isSame_day_startOf_day
        Let_def free_team_members_def)
  have run: "findAvailableSlots p (Date_only d) dur s
      = (slot_loop (Date_only d) (moment_at (Date_only d) (wd_start wh))
           (moment_at (Date_only d) (wd_end wh)) ?h (map to_bookedSlot ?bks), s)"
    by (simp add: findAvailableSlots_def ca dec)
  have lo: "- max_time \<le> d * ms_per_day + wd_start wh * 60000"
    and hi: "d * ms_per_day + wd_end wh * 60000 \<le> max_time"
    using day ws we
    by (simp_all add: javascript_day_def clock_time_def max_time_def ms_per_day_def)
  have loop: "slot_loop (Date_only d) (moment_at (Date_only d) (wd_start wh))
           (moment_at (Date_only d) (wd_end wh)) ?h (map to_bookedSlot ?bks)
     = map (\<lambda>t. \<lparr>sl_start = format_HHmm (Some (d * ms_per_day + t * 60000)),
                  sl_end = format_HHmm (Some (d * ms_per_day + (t + ?h * 60) * 60000)),
                  sl_available = True\<rparr>)
         (filter (\<lambda>t. \<not> hasConflict (Date_only d) (Some (d * ms_per_day + t * 60000))
                         (Some (d * ms_per_day + (t + ?h * 60) * 60000)) (map to_bookedSlot ?bks))
            (candidate_starts (wd_start wh) (wd_end wh) ?h))"
    unfolding moment_at_in_day [OF day ws] moment_at_in_day [OF day we]
    by (rule slot_loop_candidates [OF h lo hi])
  have wfl: "list_all (\<lambda>b. clock_time (ev_startTime (b_eventDetails b))
                    \<and> clock_time (ev_endTime (b_eventDetails b))) ?bks"
    using wf by (simp add: booked_times_wellformed_def)
  have flt: "filter (\<lambda>t. \<not> hasConflict (Date_only d) (Some (d * ms_per_day + t * 60000))
                         (Some (d * ms_per_day + (t + ?h * 60) * 60000)) (map to_bookedSlot ?bks))
            (candidate_starts (wd_start wh) (wd_end wh) ?h)
       = filter (slot_is_free p ?D s ?h) (candidate_starts (wd_start wh) (wd_end wh) ?h)"
    by (rule filter_cong [OF refl])
       (simp only: hasConflict_in_day [OF day wfl] slot_is_free_def)
  have mp: "map (\<lambda>t. \<lparr>sl_start = format_HHmm (Some (d * ms_per_day + t * 60000)),
                  sl_end = format_HHmm (Some (d * ms_per_day + (t + ?h * 60) * 60000)),
                  sl_available = True\<rparr>)
              (filter (slot_is_free p ?D s ?h) (candidate_starts (wd_start wh) (wd_end wh) ?h))
       = map (slot_at ?h)
              (filter (slot_is_free p ?D s ?h) (candidate_starts (wd_start wh) (wd_end wh) ?h))"
  proof (rule map_cong [OF refl])
    fix t
    assume "t \<in> set (filter (slot_is_free p ?D s ?h) (candidate_starts (wd_start wh) (wd_end wh) ?h))"
    then have "wd_start wh \<le> t \<and> t + ?h * 60 \<le> wd_end wh"
      using candidate_starts_bounds [of t "wd_start wh" "wd_end wh" ?h] by simp
    with ws we h have "0 \<le> t" "t < 1440" "0 \<le> t + ?h * 60" "t + ?h * 60 < 1440"
      by (simp_all add: clock_time_def)
    then show "\<lparr>sl_start = format_HHmm (Some (d * ms_per_day + t * 60000)),
                  sl_end = format_HHmm (Some (d * ms_per_day + (t + ?h * 60) * 60000)),
                  sl_available = True\<rparr> = slot_at ?h t"
      by (simp only: format_in_day slot_at_def)
  qed
  show ?thesis
    unfolding run loop flt mp by (simp add: offered_slots_def)
qed

text \<open>
  C5, as the code has it. For a date given without a time part, inside the range of
  JavaScript dates, working hours and booked times given as \<^verbatim>\<open>HH:mm\<close>, and a positive
  duration \<^verbatim>\<open>parseInt(duration) || 4\<close>: when the database answers, the weekday is
  available, the date is no blackout date and at least one team member is free by the
  code's count, the slot query returns exactly the free candidate slots, in the order of
  their starts; the starts increase strictly and every slot lies within the working
  hours. For every date, whenever the availability check reports unavailable, the slot
  query returns no slot.
\<close>

theorem findAvailableSlots_offers_free_candidates_when_available:
  "(online s \<and> javascript_day d \<and> p_availability p = Some a
      \<and> workingHours a (dayOfWeek (moment_of (Date_only d))) = Some wh
      \<and> wd_available wh \<and> clock_time (wd_start wh) \<and> clock_time (wd_end wh)
      \<and> \<not> is_blackout p (moment_of (Date_only d))
      \<and> 1 \<le> free_team_members p (moment_of (Date_only d)) s
      \<and> booked_times_wellformed p (moment_of (Date_only d)) s
      \<and> 0 < slotDuration_of dur
    \<longrightarrow> findAvailableSlots p (Date_only d) dur s
          = (offered_slots p (moment_of (Date_only d)) s wh (slotDuration_of dur), s)
        \<and> sorted_wrt (<) (map sl_start (fst (findAvailableSlots p (Date_only d) dur s)))
        \<and> list_all (\<lambda>sl. wd_start wh \<le> sl_start sl
                           \<and> sl_end sl = sl_start sl + slotDuration_of dur * 60
                           \<and> sl_end sl \<le> wd_end wh)
              (fst (findAvailableSlots p (Date_only d) dur s)))
   \<and> (\<not> r_available (fst (calculateAvailability p (moment_of date) s))
        \<longrightarrow> findAvailableSlots p date dur s = ([], s))"
proof (intro conjI impI)
  assume H: "online s \<and> javascript_day d \<and> p_availability p = Some a
      \<and> workingHours a (dayOfWeek (moment_of (Date_only d))) = Some wh
      \<and> wd_available wh \<and> clock_time (wd_start wh) \<and> clock_time (wd_end wh)
      \<and> \<not> is_blackout p (moment_of (Date_only d))
      \<and> 1 \<le> free_team_members p (moment_of (Date_only d)) s
      \<and> booked_times_wellformed p (moment_of (Date_only d)) s
      \<and> 0 < slotDuration_of dur"
  then have eq: "findAvailableSlots p (Date_only d) dur s
          = (offered_slots p (moment_of (Date_only d)) s wh (slotDuration_of dur), s)"
    using findAvailableSlots_in_day [of s d p a wh dur] by blast
  note o = offered_slots_ordered_within_hours
      [of p "moment_of (Date_only d)" s wh "slotDuration_of dur"]
  show "findAvailableSlots p (Date_only d) dur s
          = (offered_slots p (moment_of (Date_only d)) s wh (slotDuration_of dur), s)"
    by (rule eq)
  show "sorted_wrt (<) (map sl_start (fst (findAvailableSlots p (Date_only d) dur s)))"
    unfolding eq fst_conv by (rule o [THEN conjunct1])
  show "list_all (\<lambda>sl. wd_start wh \<le> sl_start sl
                           \<and> sl_end sl = sl_start sl + slotDuration_of dur * 60
                           \<and> sl_end sl \<le> wd_end wh)
              (fst (findAvailableSlots p (Date_only d) dur s))"
    unfolding eq fst_conv by (rule o [THEN conjunct2])
next
  assume "\<not> r_available (fst (calculateAvailability p (moment_of date) s))"
  then show "findAvailableSlots p date dur s = ([], s)"
    by (rule findAvailableSlots_unavailable)
qed

lemma nine_to_six_candidates:
  "candidate_starts 540 1080 4 = [540, 600, 660, 720, 780, 840]"
  by (simp add: candidate_starts_def upt_conv_Cons)

lemma monday_offer:
  "offered_slots studio monday_2024_01_01 empty_db nine_to_six 4
     = [\<lparr>sl_start = 540, sl_end = 780, sl_available = True\<rparr>,
        \<lparr>sl_start = 600, sl_end = 840, sl_available = True\<rparr>,
        \<lparr>sl_start = 660, sl_end = 900, sl_available = True\<rparr>,
        \<lparr>sl_start = 720, sl_end = 960, sl_available = True\<rparr>,
        \<lparr>sl_start = 780, sl_end = 1020, sl_available = True\<rparr>,
        \<lparr>sl_start = 840, sl_end = 1080, sl_available = True\<rparr>]"
  by (simp add: offered_slots_def nine_to_six_def nine_to_six_candidates slot_is_free_def
      day_bookings_def empty_db_def slot_at_def)

lemma one_assigned_offer:
  "offered_slots studio monday_2024_01_01 one_assigned_db nine_to_six 4
     = [\<lparr>sl_start = 720, sl_end = 960, sl_available = True\<rparr>,
        \<lparr>sl_start = 780, sl_end = 1020, sl_available = True\<rparr>,
        \<lparr>sl_start = 840, sl_end = 1080, sl_available = True\<rparr>]"
  by (simp add: offered_slots_def nine_to_six_def nine_to_six_candidates slot_is_free_def
      one_assigned_day_bookings slot_at_def)
     (simp add: one_assigned_db_def unassigned_booking_def intervalsOverlap_def)

lemma overbooked_offer:
  "offered_slots studio monday_2024_01_01 overbooked_db nine_to_six 4
     = [\<lparr>sl_start = 720, sl_end = 960, sl_available = True\<rparr>,
        \<lparr>sl_start = 780, sl_end = 1020, sl_available = True\<rparr>,
        \<lparr>sl_start = 840, sl_end = 1080, sl_available = True\<rparr>]"
  by (simp add: offered_slots_def nine_to_six_def nine_to_six_candidates slot_is_free_def
      day_bookings_def overbooked_db_def slot_at_def on_day_def studio_def studio_availability_def
      committed_def isSame_day_def intervalsOverlap_def)

lemma monday_hours:
  "workingHours studio_availability (dayOfWeek monday_2024_01_01) = Some nine_to_six"
  "p_availability studio = Some studio_availability"
  "wd_available nine_to_six" "clock_time (wd_start nine_to_six)" "clock_time (wd_end nine_to_six)"
  "javascript_day 19723" "slotDuration_of (Some 4) = 4"
  "moment_of (Date_only 19723) = monday_2024_01_01"
  by (simp_all add: studio_def studio_availability_def dayOfWeek_def monday_2024_01_01_def
      ms_per_day_def nine_to_six_def clock_time_def javascript_day_def slotDuration_of_def
      moment_of_def)

text \<open>
  C5 as stated fails: with the studio's roster used up by a confirmed booking from 10:00
  to 12:00, the candidates 12:00, 13:00 and 14:00 fit the working hours and overlap no
  booking, and the slot query returns none.
\<close>

theorem slots_need_a_free_member_counterexample:
  "online overbooked_db
   \<and> workingHours studio_availability (dayOfWeek (moment_of monday_date)) = Some nine_to_six
   \<and> \<not> is_blackout studio (moment_of monday_date)
   \<and> offered_slots studio (moment_of monday_date) overbooked_db nine_to_six 4
       = [\<lparr>sl_start = 720, sl_end = 960, sl_available = True\<rparr>,
          \<lparr>sl_start = 780, sl_end = 1020, sl_available = True\<rparr>,
          \<lparr>sl_start = 840, sl_end = 1080, sl_available = True\<rparr>]
   \<and> findAvailableSlots studio monday_date (Some 4) overbooked_db = ([], overbooked_db)"
proof -
  have "\<not> r_available (fst (calculateAvailability studio (moment_of monday_date) overbooked_db))"
    using overbooked_result decide_reason
    by (simp add: calculateAvailability_online overbooked_db_def scenario_dates)
  then have "findAvailableSlots studio monday_date (Some 4) overbooked_db = ([], overbooked_db)"
    by (rule findAvailableSlots_unavailable)
  moreover have "online overbooked_db" by (simp add: overbooked_db_def)
  ultimately show ?thesis
    using overbooked_offer monday_eligible monday_hours(1) by (simp add: scenario_dates)
qed

theorem findAvailableSlots_offers_free_candidates_when_available_witness:
  "findAvailableSlots studio monday_date (Some 4) one_assigned_db
     = ([\<lparr>sl_start = 720, sl_end = 960, sl_available = True\<rparr>,
         \<lparr>sl_start = 780, sl_end = 1020, sl_available = True\<rparr>,
         \<lparr>sl_start = 840, sl_end = 1080, sl_available = True\<rparr>], one_assigned_db)
   \<and> findAvailableSlots studio monday_date (Some 4) empty_db
     = ([\<lparr>sl_start = 540, sl_end = 780, sl_available = True\<rparr>,
         \<lparr>sl_start = 600, sl_end = 840, sl_available = True\<rparr>,
         \<lparr>sl_start = 660, sl_end = 900, sl_available = True\<rparr>,
         \<lparr>sl_start = 720, sl_end = 960, sl_available = True\<rparr>,
         \<lparr>sl_start = 780, sl_end = 1020, sl_available = True\<rparr>,
         \<lparr>sl_start = 840, sl_end = 1080, sl_available = True\<rparr>], empty_db)
   \<and> sorted_wrt (<) (map sl_start (fst (findAvailableSlots studio monday_date (Some 4) one_assigned_db)))
   \<and> \<not> r_available (fst (calculateAvailability studio (moment_of christmas_date) empty_db))
   \<and> findAvailableSlots studio christmas_date (Some 4) empty_db = ([], empty_db)"
proof -
  have on: "online empty_db" "online one_assigned_db"
    by (simp_all add: empty_db_def one_assigned_db_def)
  have free: "1 \<le> free_team_members studio monday_2024_01_01 empty_db"
    "1 \<le> free_team_members studio monday_2024_01_01 one_assigned_db"
    by (simp add: free_team_members_def day_bookings_def empty_db_def bookedTeamMembers_Nil
          studio_def studio_availability_def)
       (simp add: free_team_members_def one_assigned_day_bookings,
        simp add: one_assigned_db_def bookedTeamMembers_Cons bookedTeamMembers_Nil
          members_or_one_def unassigned_booking_def crew_of_one_def studio_def
          studio_availability_def)
  have wf: "booked_times_wellformed studio monday_2024_01_01 empty_db"
    "booked_times_wellformed studio monday_2024_01_01 one_assigned_db"
    by (simp add: booked_times_wellformed_def day_bookings_def empty_db_def)
       (simp add: booked_times_wellformed_def one_assigned_day_bookings,
        simp add: one_assigned_db_def unassigned_booking_def clock_time_def)
  have un: "\<not> r_available (fst (calculateAvailability studio (moment_of christmas_date) empty_db))"
    by (simp add: christmas_result not_available_on_day_def scenario_dates)
  have h1: "online one_assigned_db \<and> javascript_day 19723
      \<and> p_availability studio = Some studio_availability
      \<and> workingHours studio_availability (dayOfWeek (moment_of (Date_only 19723))) = Some nine_to_six
      \<and> wd_available nine_to_six \<and> clock_time (wd_start nine_to_six)
      \<and> clock_time (wd_end nine_to_six)
      \<and> \<not> is_blackout studio (moment_of (Date_only 19723))
      \<and> 1 \<le> free_team_members studio (moment_of (Date_only 19723)) one_assigned_db
      \<and> booked_times_wellformed studio (moment_of (Date_only 19723)) one_assigned_db
      \<and> 0 < slotDuration_of (Some 4)"
    using on(2) free(2) wf(2) monday_hours monday_eligible(2) by simp
  have h2: "online empty_db \<and> javascript_day 19723
      \<and> p_availability studio = Some studio_availability
      \<and> workingHours studio_availability (dayOfWeek (moment_of (Date_only 19723))) = Some nine_to_six
      \<and> wd_available nine_to_six \<and> clock_time (wd_start nine_to_six)
      \<and> clock_time (wd_end nine_to_six)
      \<and> \<not> is_blackout studio (moment_of (Date_only 19723))
      \<and> 1 \<le> free_team_members studio (moment_of (Date_only 19723)) empty_db
      \<and> booked_times_wellformed studio (moment_of (Date_only 19723)) empty_db
      \<and> 0 < slotDuration_of (Some 4)"
    using on(1) free(1) wf(1) monday_hours monday_eligible(2) by simp
  note r1 = findAvailableSlots_offers_free_candidates_when_available
        [where s = one_assigned_db and d = 19723 and p = studio and a = studio_availability
           and wh = nine_to_six and dur = "Some 4", THEN conjunct1, THEN mp, OF h1]
  note r2 = findAvailableSlots_offers_free_candidates_when_available
        [where s = empty_db and d = 19723 and p = studio and a = studio_availability
           and wh = nine_to_six and dur = "Some 4", THEN conjunct1, THEN mp, OF h2]
  have one: "findAvailableSlots studio (Date_only 19723) (Some 4) one_assigned_db
      = (offered_slots studio monday_2024_01_01 one_assigned_db nine_to_six 4, one_assigned_db)"
    using r1 [THEN conjunct1] by (simp add: monday_hours)
  have srt: "sorted_wrt (<) (map sl_start
                (fst (findAvailableSlots studio (Date_only 19723) (Some 4) one_assigned_db)))"
    by (rule r1 [THEN conjunct2, THEN conjunct1])
  have none: "findAvailableSlots studio (Date_only 19723) (Some 4) empty_db
      = (offered_slots studio monday_2024_01_01 empty_db nine_to_six 4, empty_db)"
    using r2 [THEN conjunct1] by (simp add: monday_hours)
  have xmas: "findAvailableSlots studio christmas_date (Some 4) empty_db = ([], empty_db)"
    using un
      findAvailableSlots_offers_free_candidates_when_available
        [where s = empty_db and p = studio and date = christmas_date and dur = "Some 4",
         THEN conjunct2]
    by simp
  have "findAvailableSlots studio monday_date (Some 4) one_assigned_db
     = ([\<lparr>sl_start = 720, sl_end = 960, sl_available = True\<rparr>,
         \<lparr>sl_start = 780, sl_end = 1020, sl_available = True\<rparr>,
         \<lparr>sl_start = 840, sl_end = 1080, sl_available = True\<rparr>], one_assigned_db)"
    using one by (simp add: monday_date_def one_assigned_offer)
  moreover have "findAvailableSlots studio monday_date (Some 4) empty_db
     = ([\<lparr>sl_start = 540, sl_end = 780, sl_available = True\<rparr>,
         \<lparr>sl_start = 600, sl_end = 840, sl_available = True\<rparr>,
         \<lparr>sl_start = 660, sl_end = 900, sl_available = True\<rparr>,
         \<lparr>sl_start = 720, sl_end = 960, sl_available = True\<rparr>,
         \<lparr>sl_start = 780, sl_end = 1020, sl_available = True\<rparr>,
         \<lparr>sl_start = 840, sl_end = 1080, sl_available = True\<rparr>], empty_db)"
    using none by (simp add: monday_date_def monday_offer)
  moreover have "sorted_wrt (<) (map sl_start
                (fst (findAvailableSlots studio monday_date (Some 4) one_assigned_db)))"
    using srt by (simp only: monday_date_def)
  ultimately show ?thesis
    using xmas un by blast
qed

text \<open>
  Where the moments are invalid the loop does not run: a date that carries a time part,
  and a duration that takes the first slot end out of the range of JavaScript dates.
\<close>

lemma slot_loop_invalid_start: "slot_loop date None workEnd h bs = []"
  by (subst slot_loop.simps) (simp add: add_hours_def isSameOrBefore_def)

lemma findAvailableSlots_date_with_time: "findAvailableSlots p (Date_time t) dur s = ([], s)"
proof -
  have "snd (calculateAvailability p (moment_of (Date_time t)) s) = s"
    by (rule calculateAvailability_store)
  then show ?thesis
    by (cases "calculateAvailability p (moment_of (Date_time t)) s")
       (simp add: findAvailableSlots_def moment_at_def slot_loop_invalid_start
          split: option.splits)
qed

lemma findAvailableSlots_duration_out_of_range:
  "findAvailableSlots studio monday_date (Some (- 3000000000)) empty_db = ([], empty_db)"
proof -
  have "slot_loop monday_date (moment_at monday_date 540) (moment_at monday_date 1080)
          (- 3000000000) [] = []"
    by (subst slot_loop.simps)
       (simp add: moment_at_def monday_date_def mk_moment_def max_time_def ms_per_day_def
          add_hours_def isSameOrBefore_def)
  moreover have "snd (calculateAvailability studio (moment_of monday_date) empty_db) = empty_db"
    by (rule calculateAvailability_store)
  moreover have "r_workingHours (fst (calculateAvailability studio (moment_of monday_date) empty_db))
      = Some nine_to_six"
    "r_bookedSlots (fst (calculateAvailability studio (moment_of monday_date) empty_db)) = []"
    by (simp_all add: scenario_dates calculateAvailability_online empty_db_def
        decide_availability_def studio_def studio_availability_def monday_2024_01_01_def
        christmas_2024_def monday_2024_01_08_def startOf_day_def ms_per_day_def dayOfWeek_def
        nine_to_six_def isSame_day_def bookedTeamMembers_Nil Let_def)
  ultimately show ?thesis
    by (cases "calculateAvailability studio (moment_of monday_date) empty_db")
       (simp add: findAvailableSlots_def slotDuration_of_def nine_to_six_def split: option.splits)
qed

section \<open>Status transitions\<close>

lemma find_update_first:
  assumes "find q xs = Some b" "q (f b)"
  shows "find q (update_first q f xs) = Some (f b)"
  using assms by (induction xs) (auto split: if_splits)

lemma find_by_id:
  assumes "find (\<lambda>c. b_id c = i) bs = Some b"
  shows "b_id b = i \<and> list_ex (\<lambda>c. b_id c = i) bs"
  using assms by (induction bs) (auto split: if_splits)

lemma cancelBooking_ok:
  assumes "fst (cancelBooking user i reason s) = Ok_200 r"
  shows "\<exists>b. find (\<lambda>c. b_id c = i) (bookings s) = Some b
           \<and> b_status b \<noteq> Completed \<and> b_status b \<noteq> Cancelled
           \<and> r = Some (cancelled_by user reason b)"
  using assms
  by (auto simp: cancelBooking_def Booking_findOne_def Booking_save_def Let_def cancelled_by_def
      split: option.splits if_splits)

lemma cancelBooking_terminal:
  assumes "online s" "find (\<lambda>c. b_id c = i) (bookings s) = Some b"
    "b_status b = Completed \<or> b_status b = Cancelled"
  shows "snd (cancelBooking user i reason s) = s
       \<and> (fst (cancelBooking user i reason s) = Forbidden
          \<or> fst (cancelBooking user i reason s) = BadRequest ''Booking cannot be cancelled'')"
  using assms
  by (auto simp: cancelBooking_def Booking_findOne_def Let_def)

lemma cancelBooking_open:
  assumes "online s" "find (\<lambda>c. b_id c = i) (bookings s) = Some b" "b_client b = user"
    "b_status b \<noteq> Completed" "b_status b \<noteq> Cancelled"
  shows "cancelBooking user i reason s
           = (Ok_200 (Some (cancelled_by user reason b)),
              s\<lparr>bookings := update_first (\<lambda>c. b_id c = i) (\<lambda>doc. cancelled_by user reason b)
                               (bookings s)\<rparr>)"
    and "find (\<lambda>c. b_id c = i) (bookings (snd (cancelBooking user i reason s)))
           = Some (cancelled_by user reason b)"
proof -
  from find_by_id [OF assms(2)] have id: "b_id b = i" and ex: "list_ex (\<lambda>c. b_id c = i) (bookings s)"
    by simp_all
  show r: "cancelBooking user i reason s
           = (Ok_200 (Some (cancelled_by user reason b)),
              s\<lparr>bookings := update_first (\<lambda>c. b_id c = i) (\<lambda>doc. cancelled_by user reason b)
                               (bookings s)\<rparr>)"
    using assms id ex
    by (simp add: cancelBooking_def Booking_findOne_def Booking_save_def Let_def cancelled_by_def)
  have "b_id (cancelled_by user reason b) = i" using id by (simp add: cancelled_by_def)
  then show "find (\<lambda>c. b_id c = i) (bookings (snd (cancelBooking user i reason s)))
           = Some (cancelled_by user reason b)"
    using find_update_first [OF assms(2), of "\<lambda>doc. cancelled_by user reason b"]
    by (simp add: r)
qed

lemma updateBookingStatus_forward:
  assumes "online s" "find (\<lambda>c. b_id c = i) (bookings s) = Some b" "b_provider b = pid"
  shows "updateBookingStatus (Some pid) i \<lparr>rq_status = st, rq_teamAssignment = None\<rparr> s
           = (Ok_200 (Some (b\<lparr>b_status := st\<rparr>)),
              s\<lparr>bookings := update_first (\<lambda>c. b_id c = i) (\<lambda>doc. doc\<lparr>b_status := st\<rparr>)
                               (bookings s)\<rparr>)"
    and "find (\<lambda>c. b_id c = i)
           (bookings (snd (updateBookingStatus (Some pid) i
                             \<lparr>rq_status = st, rq_teamAssignment = None\<rparr> s)))
           = Some (b\<lparr>b_status := st\<rparr>)"
proof -
  have f: "updateData b \<lparr>rq_status = st, rq_teamAssignment = None\<rparr> = (\<lambda>doc. doc\<lparr>b_status := st\<rparr>)"
    by (rule ext) (simp add: updateData_def)
  show r: "updateBookingStatus (Some pid) i \<lparr>rq_status = st, rq_teamAssignment = None\<rparr> s
           = (Ok_200 (Some (b\<lparr>b_status := st\<rparr>)),
              s\<lparr>bookings := update_first (\<lambda>c. b_id c = i) (\<lambda>doc. doc\<lparr>b_status := st\<rparr>)
                               (bookings s)\<rparr>)"
    using updateBookingStatus_owned [OF assms, of "\<lparr>rq_status = st, rq_teamAssignment = None\<rparr>"]
    by (simp add: f)
  from find_by_id [OF assms(2)] have "b_id (b\<lparr>b_status := st\<rparr>) = i" by simp
  then show "find (\<lambda>c. b_id c = i)
           (bookings (snd (updateBookingStatus (Some pid) i
                             \<lparr>rq_status = st, rq_teamAssignment = None\<rparr> s)))
           = Some (b\<lparr>b_status := st\<rparr>)"
    using find_update_first [OF assms(2), of "\<lambda>doc. doc\<lparr>b_status := st\<rparr>"]
    by (simp add: r)
qed

text \<open>
  C6, as the code has it. A booking is built pending: \<^verbatim>\<open>new Booking\<close> is given no
  status. \<^verbatim>\<open>cancelBooking\<close>, asked by the booking's client with the database reachable,
  stores a booking that is neither completed nor cancelled as cancelled, so from
  pending, confirmed, in progress and also from disputed; on a completed or cancelled
  booking it refuses and leaves the store as it was; and it answers with success only for
  a booking that was neither completed nor cancelled. The provider's status update stores
  each forward step: pending to confirmed, confirmed to in progress, in progress to
  completed.
\<close>

theorem status_transitions_of_the_controller:
  "b_status (new_Booking fresh client providerId ptype ev) = Pending
   \<and> (online s \<and> find (\<lambda>c. b_id c = i) (bookings s) = Some b \<and> b_client b = user
        \<and> b_status b \<noteq> Completed \<and> b_status b \<noteq> Cancelled
      \<longrightarrow> cancelBooking user i reason s
            = (Ok_200 (Some (cancelled_by user reason b)),
               s\<lparr>bookings := update_first (\<lambda>c. b_id c = i) (\<lambda>doc. cancelled_by user reason b)
                                (bookings s)\<rparr>)
          \<and> find (\<lambda>c. b_id c = i) (bookings (snd (cancelBooking user i reason s)))
              = Some (cancelled_by user reason b)
          \<and> b_status (cancelled_by user reason b) = Cancelled)
   \<and> (online s \<and> find (\<lambda>c. b_id c = i) (bookings s) = Some b
        \<and> (b_status b = Completed \<or> b_status b = Cancelled)
      \<longrightarrow> snd (cancelBooking user i reason s) = s
          \<and> (fst (cancelBooking user i reason s) = Forbidden
              \<or> fst (cancelBooking user i reason s) = BadRequest ''Booking cannot be cancelled''))
   \<and> (fst (cancelBooking user i reason s) = Ok_200 r
      \<longrightarrow> (\<exists>b. find (\<lambda>c. b_id c = i) (bookings s) = Some b
               \<and> b_status b \<noteq> Completed \<and> b_status b \<noteq> Cancelled
               \<and> r = Some (cancelled_by user reason b)))
   \<and> (online s \<and> find (\<lambda>c. b_id c = i) (bookings s) = Some b \<and> b_provider b = pid
        \<and> (b_status b = Pending \<and> st = Confirmed \<or> b_status b = Confirmed \<and> st = In_progress
            \<or> b_status b = In_progress \<and> st = Completed)
      \<longrightarrow> updateBookingStatus (Some pid) i \<lparr>rq_status = st, rq_teamAssignment = None\<rparr> s
            = (Ok_200 (Some (b\<lparr>b_status := st\<rparr>)),
               s\<lparr>bookings := update_first (\<lambda>c. b_id c = i) (\<lambda>doc. doc\<lparr>b_status := st\<rparr>)
                                (bookings s)\<rparr>)
          \<and> find (\<lambda>c. b_id c = i)
               (bookings (snd (updateBookingStatus (Some pid) i
                                 \<lparr>rq_status = st, rq_teamAssignment = None\<rparr> s)))
              = Some (b\<lparr>b_status := st\<rparr>))"
proof (intro conjI impI)
  show "b_status (new_Booking fresh client providerId ptype ev) = Pending"
    by (simp add: new_Booking_def)
next
  assume h: "online s \<and> find (\<lambda>c. b_id c = i) (bookings s) = Some b \<and> b_client b = user
        \<and> b_status b \<noteq> Completed \<and> b_status b \<noteq> Cancelled"
  then have a: "online s" and f: "find (\<lambda>c. b_id c = i) (bookings s) = Some b"
    and c: "b_client b = user" and n1: "b_status b \<noteq> Completed" and n2: "b_status b \<noteq> Cancelled"
    by simp_all
  show "cancelBooking user i reason s
            = (Ok_200 (Some (cancelled_by user reason b)),
               s\<lparr>bookings := update_first (\<lambda>c. b_id c = i) (\<lambda>doc. cancelled_by user reason b)
                                (bookings s)\<rparr>)"
    by (rule cancelBooking_open(1) [OF a f c n1 n2])
  show "find (\<lambda>c. b_id c = i) (bookings (snd (cancelBooking user i reason s)))
              = Some (cancelled_by user reason b)"
    by (rule cancelBooking_open(2) [OF a f c n1 n2])
  show "b_status (cancelled_by user reason b) = Cancelled"
    by (simp add: cancelled_by_def)
next
  assume h: "online s \<and> find (\<lambda>c. b_id c = i) (bookings s) = Some b
        \<and> (b_status b = Completed \<or> b_status b = Cancelled)"
  then have t: "snd (cancelBooking user i reason s) = s
       \<and> (fst (cancelBooking user i reason s) = Forbidden
          \<or> fst (cancelBooking user i reason s) = BadRequest ''Booking cannot be cancelled'')"
    using cancelBooking_terminal [of s i b user reason] by blast
  from t show "snd (cancelBooking user i reason s) = s" by (rule conjunct1)
  from t show "fst (cancelBooking user i reason s) = Forbidden
              \<or> fst (cancelBooking user i reason s) = BadRequest ''Booking cannot be cancelled''"
    by (rule conjunct2)
next
  assume "fst (cancelBooking user i reason s) = Ok_200 r"
  then show "\<exists>b. find (\<lambda>c. b_id c = i) (bookings s) = Some b
               \<and> b_status b \<noteq> Completed \<and> b_status b \<noteq> Cancelled
               \<and> r = Some (cancelled_by user reason b)"
    by (rule cancelBooking_ok)
next
  assume h: "online s \<and> find (\<lambda>c. b_id c = i) (bookings s) = Some b \<and> b_provider b = pid
        \<and> (b_status b = Pending \<and> st = Confirmed \<or> b_status b = Confirmed \<and> st = In_progress
            \<or> b_status b = In_progress \<and> st = Completed)"
  then have a: "online s" and f: "find (\<lambda>c. b_id c = i) (bookings s) = Some b"
    and p: "b_provider b = pid" by simp_all
  show "updateBookingStatus (Some pid) i \<lparr>rq_status = st, rq_teamAssignment = None\<rparr> s
            = (Ok_200 (Some (b\<lparr>b_status := st\<rparr>)),
               s\<lparr>bookings := update_first (\<lambda>c. b_id c = i) (\<lambda>doc. doc\<lparr>b_status := st\<rparr>)
                                (bookings s)\<rparr>)"
    by (rule updateBookingStatus_forward(1) [OF a f p])
  show "find (\<lambda>c. b_id c = i)
               (bookings (snd (updateBookingStatus (Some pid) i
                                 \<lparr>rq_status = st, rq_teamAssignment = None\<rparr> s)))
              = Some (b\<lparr>b_status := st\<rparr>)"
    by (rule updateBookingStatus_forward(2) [OF a f p])
qed

lemma stored_bookings:
  "find (\<lambda>c. b_id c = 100) (bookings first_confirmed_db) = Some (confirmed_booking 100)"
  "find (\<lambda>c. b_id c = 100) (bookings completed_db) = Some ((confirmed_booking 100)\<lparr>b_status := Completed\<rparr>)"
  "find (\<lambda>c. b_id c = 100) (bookings disputed_db) = Some ((confirmed_booking 100)\<lparr>b_status := Disputed\<rparr>)"
  "find (\<lambda>c. b_id c = 100) (bookings two_pending_db) = Some (pending_booking 100)"
  by (simp_all add: first_confirmed_db_def completed_db_def disputed_db_def two_pending_db_def
      confirmed_booking_def pending_booking_def new_Booking_def)

lemma scenario_bookings:
  "b_client (confirmed_booking 100) = 50" "b_status (confirmed_booking 100) = Confirmed"
  "b_status ((confirmed_booking 100)\<lparr>b_status := Completed\<rparr>) = Completed"
  "b_provider (pending_booking 100) = 1" "b_status (pending_booking 100) = Pending"
  "cancelled_by 50 ''change of plans'' (confirmed_booking 100) = cancelled_booking 100"
  "online first_confirmed_db" "online completed_db" "online two_pending_db"
  by (simp_all add: confirmed_booking_def pending_booking_def new_Booking_def cancelled_by_def
      cancelled_booking_def first_confirmed_db_def completed_db_def two_pending_db_def)

theorem status_transitions_of_the_controller_witness:
  "b_status (new_Booking 102 51 1 Photographer monday_event) = Pending
   \<and> b_status (confirmed_booking 100) = Confirmed
   \<and> cancelBooking 50 100 ''change of plans'' first_confirmed_db
       = (Ok_200 (Some (cancelled_booking 100)),
          \<lparr>online = True, bookings = [cancelled_booking 100, pending_booking 101]\<rparr>)
   \<and> find (\<lambda>c. b_id c = 100)
        (bookings (snd (cancelBooking 50 100 ''change of plans'' first_confirmed_db)))
       = Some (cancelled_booking 100)
   \<and> b_status (cancelled_booking 100) = Cancelled
   \<and> b_status ((confirmed_booking 100)\<lparr>b_status := Completed\<rparr>) = Completed
   \<and> snd (cancelBooking 50 100 ''change of plans'' completed_db) = completed_db
   \<and> b_status (pending_booking 100) = Pending
   \<and> updateBookingStatus (Some 1) 100 \<lparr>rq_status = Confirmed, rq_teamAssignment = None\<rparr> two_pending_db
       = (Ok_200 (Some ((pending_booking 100)\<lparr>b_status := Confirmed\<rparr>)),
          \<lparr>online = True,
           bookings = [(pending_booking 100)\<lparr>b_status := Confirmed\<rparr>, pending_booking 101]\<rparr>)"
proof -
  note T = status_transitions_of_the_controller
  have c1: "b_status (new_Booking 102 51 1 Photographer monday_event) = Pending"
    by (rule T [where fresh = 102 and client = 51 and providerId = 1 and ptype = Photographer
                 and ev = monday_event, THEN conjunct1])
  have h2: "online first_confirmed_db
      \<and> find (\<lambda>c. b_id c = 100) (bookings first_confirmed_db) = Some (confirmed_booking 100)
      \<and> b_client (confirmed_booking 100) = 50
      \<and> b_status (confirmed_booking 100) \<noteq> Completed
      \<and> b_status (confirmed_booking 100) \<noteq> Cancelled"
    using stored_bookings(1) scenario_bookings by simp
  note c2 = T [where s = first_confirmed_db and i = 100 and b = "confirmed_booking 100"
                and user = 50 and reason = "''change of plans''",
               THEN conjunct2, THEN conjunct1, THEN mp, OF h2]
  have h3: "online completed_db
      \<and> find (\<lambda>c. b_id c = 100) (bookings completed_db)
          = Some ((confirmed_booking 100)\<lparr>b_status := Completed\<rparr>)
      \<and> (b_status ((confirmed_booking 100)\<lparr>b_status := Completed\<rparr>) = Completed
         \<or> b_status ((confirmed_booking 100)\<lparr>b_status := Completed\<rparr>) = Cancelled)"
    using stored_bookings(2) scenario_bookings by simp
  note c3 = T [where s = completed_db and i = 100
                and b = "(confirmed_booking 100)\<lparr>b_status := Completed\<rparr>"
                and user = 50 and reason = "''change of plans''",
               THEN conjunct2, THEN conjunct2, THEN conjunct1, THEN mp, OF h3]
  have h5: "online two_pending_db
      \<and> find (\<lambda>c. b_id c = 100) (bookings two_pending_db) = Some (pending_booking 100)
      \<and> b_provider (pending_booking 100) = 1
      \<and> (b_status (pending_booking 100) = Pending \<and> Confirmed = Confirmed
          \<or> b_status (pending_booking 100) = Confirmed \<and> Confirmed = In_progress
          \<or> b_status (pending_booking 100) = In_progress \<and> Confirmed = Completed)"
    using stored_bookings(4) scenario_bookings by simp
  note c5 = T [where s = two_pending_db and i = 100 and b = "pending_booking 100" and pid = 1
                and st = Confirmed,
               THEN conjunct2, THEN conjunct2, THEN conjunct2, THEN conjunct2, THEN mp, OF h5]
  have st1: "first_confirmed_db
        \<lparr>bookings := update_first (\<lambda>c. b_id c = 100) (\<lambda>doc. cancelled_booking 100)
                       (bookings first_confirmed_db)\<rparr>
      = \<lparr>online = True, bookings = [cancelled_booking 100, pending_booking 101]\<rparr>"
    by (simp add: first_confirmed_db_def confirmed_booking_def pending_booking_def new_Booking_def)
  have st5: "two_pending_db
        \<lparr>bookings := update_first (\<lambda>c. b_id c = 100) (\<lambda>doc. doc\<lparr>b_status := Confirmed\<rparr>)
                       (bookings two_pending_db)\<rparr>
      = \<lparr>online = True,
         bookings = [(pending_booking 100)\<lparr>b_status := Confirmed\<rparr>, pending_booking 101]\<rparr>"
    by (simp add: two_pending_db_def pending_booking_def new_Booking_def)
  have p2a: "cancelBooking 50 100 ''change of plans'' first_confirmed_db
       = (Ok_200 (Some (cancelled_booking 100)),
          \<lparr>online = True, bookings = [cancelled_booking 100, pending_booking 101]\<rparr>)"
    using c2 [THEN conjunct1] st1 by (simp only: scenario_bookings(6))
  have p2b: "find (\<lambda>c. b_id c = 100)
        (bookings (snd (cancelBooking 50 100 ''change of plans'' first_confirmed_db)))
       = Some (cancelled_booking 100)"
    using c2 [THEN conjunct2, THEN conjunct1] by (simp only: scenario_bookings(6))
  have p2c: "b_status (cancelled_booking 100) = Cancelled"
    using c2 [THEN conjunct2, THEN conjunct2] by (simp only: scenario_bookings(6))
  have p5: "updateBookingStatus (Some 1) 100 \<lparr>rq_status = Confirmed, rq_teamAssignment = None\<rparr> two_pending_db
       = (Ok_200 (Some ((pending_booking 100)\<lparr>b_status := Confirmed\<rparr>)),
          \<lparr>online = True,
           bookings = [(pending_booking 100)\<lparr>b_status := Confirmed\<rparr>, pending_booking 101]\<rparr>)"
    using c5 [THEN conjunct1] st5 by (simp only:)
  show ?thesis
    by (intro conjI c1 scenario_bookings(2) p2a p2b p2c scenario_bookings(3)
        c3 [THEN conjunct1] scenario_bookings(5) p5)
qed

text \<open>
  C6 as stated fails: the client cancels a disputed booking, which is then stored as
  cancelled, so cancelled is reached from disputed; and the provider's status update
  stores a completed booking as pending.
\<close>

theorem cancelled_from_disputed_counterexample:
  "find (\<lambda>c. b_id c = 100) (bookings disputed_db) = Some ((confirmed_booking 100)\<lparr>b_status := Disputed\<rparr>)
   \<and> cancelBooking 50 100 ''change of plans'' disputed_db
       = (Ok_200 (Some (cancelled_booking 100)),
          \<lparr>online = True, bookings = [cancelled_booking 100]\<rparr>)
   \<and> b_status (cancelled_booking 100) = Cancelled
   \<and> find (\<lambda>c. b_id c = 100) (bookings completed_db) = Some ((confirmed_booking 100)\<lparr>b_status := Completed\<rparr>)
   \<and> updateBookingStatus (Some 1) 100 reopen_request completed_db
       = (Ok_200 (Some ((confirmed_booking 100)\<lparr>b_status := Pending\<rparr>)),
          \<lparr>online = True, bookings = [(confirmed_booking 100)\<lparr>b_status := Pending\<rparr>]\<rparr>)"
proof -
  have "cancelBooking 50 100 ''change of plans'' disputed_db
       = (Ok_200 (Some (cancelled_booking 100)),
          \<lparr>online = True, bookings = [cancelled_booking 100]\<rparr>)"
    by (simp add: cancelBooking_def Booking_findOne_def Booking_save_def provider_user_def
        disputed_db_def confirmed_booking_def pending_booking_def new_Booking_def
        cancelled_booking_def Let_def)
  moreover have "updateBookingStatus (Some 1) 100 reopen_request completed_db
       = (Ok_200 (Some ((confirmed_booking 100)\<lparr>b_status := Pending\<rparr>)),
          \<lparr>online = True, bookings = [(confirmed_booking 100)\<lparr>b_status := Pending\<rparr>]\<rparr>)"
    by (simp add: updateBookingStatus_def Booking_findOne_def Booking_findByIdAndUpdate_def
        completed_db_def confirmed_booking_def pending_booking_def new_Booking_def updateData_def
        reopen_request_def)
  moreover have "b_status (cancelled_booking 100) = Cancelled"
    by (simp add: cancelled_booking_def)
  ultimately show ?thesis using stored_bookings by simp
qed

end
